theory Spec2Isabelle
  imports Main "HOL-Library.Word" "HOL-Library.Sublist"
begin

unbundle bit_operations_syntax

section \<open>The Notecard connection handler\<close>

text \<open>
  A shallow embedding of \<^verbatim>\<open>src/Arduino_NotecardConnectionHandler.cpp\<close>. Every member
  function of \<^verbatim>\<open>NotecardConnectionHandler\<close> becomes a function that takes the handler's
  fields (a record) and the state of everything outside the handler (the host heap and
  the Notecard with its notefiles, of an arbitrary type \<open>'e\<close>), and returns its result
  with both states as the call leaves them. Logging through \<^verbatim>\<open>Debug.print\<close> has no
  effect on either state and is left out. The build is the one without
  \<^verbatim>\<open>ARDUINO_SWAN_R5\<close>, so the \<^verbatim>\<open>STLINK_DEBUG\<close> block of the INIT handler is not
  compiled.
\<close>

subsection \<open>Machine types\<close>

type_synonym uint8_t = "8 word"
type_synonym uint32_t = "32 word"

text \<open>
  \<^verbatim>\<open>uint_fast8_t\<close> is at least eight bits wide; the status value only ever holds the
  low eight bits, so eight bits model it on every target.
\<close>

type_synonym uint_fast8_t = "8 word"

subsection \<open>The JSON objects of the transaction library\<close>

text \<open>
  Modelled from the spec: the vendor library that builds requests and decodes responses
  (\<^verbatim>\<open>J\<close>, \<^verbatim>\<open>JAdd...ToObject\<close>, \<^verbatim>\<open>JGet...\<close>, \<^verbatim>\<open>NoteResponseError\<close>) is an external
  collaborator, not under src/. Section 4.1 of the spec gives its fields as typed
  (string, integer, boolean, binary blob) and section 6 its decoding. An object is the
  list of its fields in the order they were attached; a lookup finds the first field of
  that name. A binary field holds the bytes themselves: the text encoding the library
  uses on the wire is not modelled.
\<close>

datatype J_value =
    JString string
  | JInt int
  | JBool bool
  | JBinary "uint8_t list"
  | JArray "string list"

type_synonym J = "(string \<times> J_value) list"

definition JAddStringToObject :: "J \<Rightarrow> string \<Rightarrow> string \<Rightarrow> J" where
  "JAddStringToObject obj field v = obj @ [(field, JString v)]"

definition JAddIntToObject :: "J \<Rightarrow> string \<Rightarrow> int \<Rightarrow> J" where
  "JAddIntToObject obj field v = obj @ [(field, JInt v)]"

definition JAddBoolToObject :: "J \<Rightarrow> string \<Rightarrow> bool \<Rightarrow> J" where
  "JAddBoolToObject obj field v = obj @ [(field, JBool v)]"

definition JAddBinaryToObject :: "J \<Rightarrow> string \<Rightarrow> uint8_t list \<Rightarrow> J" where
  "JAddBinaryToObject obj field v = obj @ [(field, JBinary v)]"

text \<open>
  Modelled from the spec: the getters answer a null response, a missing field and a
  field of another type with the empty string, \<open>False\<close> and \<open>0\<close>.
\<close>

definition JGetString :: "J option \<Rightarrow> string \<Rightarrow> string" where
  "JGetString rsp field =
     (case rsp of
        None \<Rightarrow> []
      | Some obj \<Rightarrow> (case map_of obj field of Some (JString s) \<Rightarrow> s | _ \<Rightarrow> []))"

definition JGetBool :: "J option \<Rightarrow> string \<Rightarrow> bool" where
  "JGetBool rsp field =
     (case rsp of
        None \<Rightarrow> False
      | Some obj \<Rightarrow> (case map_of obj field of Some (JBool b) \<Rightarrow> b | _ \<Rightarrow> False))"

definition JGetInt :: "J option \<Rightarrow> string \<Rightarrow> int" where
  "JGetInt rsp field =
     (case rsp of
        None \<Rightarrow> 0
      | Some obj \<Rightarrow> (case map_of obj field of Some (JInt i) \<Rightarrow> i | _ \<Rightarrow> 0))"

text \<open>
  Modelled from the spec: \<^verbatim>\<open>JGetBinaryFromObject\<close> hands out the payload's bytes, or
  nothing (leaving the caller's buffer and length as they were) when the object has no
  binary field of that name.
\<close>

definition JGetBinaryFromObject :: "J \<Rightarrow> string \<Rightarrow> uint8_t list option" where
  "JGetBinaryFromObject obj field =
     (case map_of obj field of Some (JBinary bs) \<Rightarrow> Some bs | _ \<Rightarrow> None)"

text \<open>
  Modelled from the spec (section 6): a response is a protocol error when it carries an
  \<^verbatim>\<open>err\<close> field that is present and, if text, not empty. A null response carries none.
\<close>

definition NoteResponseError :: "J option \<Rightarrow> bool" where
  "NoteResponseError rsp =
     (case rsp of
        None \<Rightarrow> False
      | Some obj \<Rightarrow>
          (case map_of obj ''err'' of
             None \<Rightarrow> False
           | Some (JString s) \<Rightarrow> s \<noteq> []
           | Some _ \<Rightarrow> True))"

text \<open>
  The C library's \<^verbatim>\<open>strstr\<close>: the offset of the first occurrence of the needle in
  the haystack, \<open>None\<close> for the null pointer. Strings are taken without their
  terminating NUL.
\<close>

fun strstr :: "string \<Rightarrow> string \<Rightarrow> nat option" where
  "strstr [] needle = (if needle = [] then Some 0 else None)"
| "strstr (c # cs) needle =
     (if prefix needle (c # cs) then Some 0 else map_option Suc (strstr cs needle))"

text \<open>Modelled from the spec: \<^verbatim>\<open>NoteErrorContains\<close> is a substring test on the error text.\<close>

definition NoteErrorContains :: "string \<Rightarrow> string \<Rightarrow> bool" where
  "NoteErrorContains errstr errtype = (strstr errstr errtype \<noteq> None)"

subsection \<open>The world outside the handler\<close>

text \<open>
  What the handler cannot decide for itself: whether the host can allocate the next
  object, how the Notecard answers a request (a response object, or null when the
  transaction itself fails), and what opening the transport does. Each takes the outside
  state and returns the new one.
\<close>

datatype transport =
    Serial nat uint32_t
  | I2C uint32_t uint32_t nat

record 'e Notecard =
  nc_malloc :: "'e \<Rightarrow> bool \<times> 'e"
  nc_transaction :: "J \<Rightarrow> 'e \<Rightarrow> J option \<times> 'e"
  nc_begin :: "transport \<Rightarrow> 'e \<Rightarrow> 'e"

text \<open>
  Modelled from the spec: \<^verbatim>\<open>newRequest\<close> allocates an object naming the transaction,
  or returns null when the host is out of memory; \<^verbatim>\<open>requestAndResponse\<close> performs the
  transaction and releases the request, and answers a null request with null without
  a transaction.
\<close>

definition newRequest :: "'e Notecard \<Rightarrow> string \<Rightarrow> 'e \<Rightarrow> J option \<times> 'e" where
  "newRequest N request e =
     (let (ok, e') = nc_malloc N e
      in if ok then (Some [(''req'', JString request)], e') else (None, e'))"

definition requestAndResponse :: "'e Notecard \<Rightarrow> J option \<Rightarrow> 'e \<Rightarrow> J option \<times> 'e" where
  "requestAndResponse N req e =
     (case req of None \<Rightarrow> (None, e) | Some r \<Rightarrow> nc_transaction N r e)"

text \<open>
  Modelled from the spec: \<^verbatim>\<open>JAddArrayToObject\<close> allocates an empty array field and
  returns it, or null when the host is out of memory; \<^verbatim>\<open>JAddItemToArray\<close> with
  \<^verbatim>\<open>JCreateString\<close> appends a string to it.
\<close>

definition JAddArrayToObject :: "'e Notecard \<Rightarrow> J \<Rightarrow> string \<Rightarrow> 'e \<Rightarrow> J option \<times> 'e" where
  "JAddArrayToObject N obj field e =
     (let (ok, e') = nc_malloc N e
      in if ok then (Some (obj @ [(field, JArray [])]), e') else (None, e'))"

fun JAddItemToArray :: "J \<Rightarrow> string \<Rightarrow> string \<Rightarrow> J" where
  "JAddItemToArray [] field item = []"
| "JAddItemToArray ((f, v) # obj) field item =
     (if f = field
      then (case v of
              JArray items \<Rightarrow> (f, JArray (items @ [item])) # obj
            | _ \<Rightarrow> (f, v) # obj)
      else (f, v) # JAddItemToArray obj field item)"

subsection \<open>Constants\<close>

definition NOTEFILE_BASE_NAME :: string where
  "NOTEFILE_BASE_NAME = ''arduino_iot_cloud''"

definition NOTEFILE_INBOUND_LORA_PORT :: int where
  "NOTEFILE_INBOUND_LORA_PORT = 79"

definition NOTEFILE_OUTBOUND_LORA_PORT :: int where
  "NOTEFILE_OUTBOUND_LORA_PORT = 83"

definition NOTEFILE_SSL_INBOUND :: string where
  "NOTEFILE_SSL_INBOUND = NOTEFILE_BASE_NAME @ ''.qis''"

definition NOTEFILE_SSL_OUTBOUND :: string where
  "NOTEFILE_SSL_OUTBOUND = NOTEFILE_BASE_NAME @ ''.qos''"

subsection \<open>The connection status\<close>

record NotecardConnectionStatus =
  transport_connected :: bool
  connected_to_notehub :: bool
  notecard_error :: bool
  host_error :: bool
  reserved :: "4 word"

text \<open>The default constructor: every bit clear.\<close>

definition NotecardConnectionStatus_void :: NotecardConnectionStatus where
  "NotecardConnectionStatus_void =
     \<lparr> transport_connected = False, connected_to_notehub = False,
       notecard_error = False, host_error = False, reserved = 0 \<rparr>"

text \<open>
  The converting constructor from \<^verbatim>\<open>uint_fast8_t\<close>. A one-bit \<^verbatim>\<open>bool\<close> field set from
  \<^verbatim>\<open>x & mask\<close> is true when the masked value is not zero; the four-bit field
  \<^verbatim>\<open>reserved\<close> keeps the low four bits of \<^verbatim>\<open>x & 0xF0\<close>.
\<close>

definition NotecardConnectionStatus_of :: "uint_fast8_t \<Rightarrow> NotecardConnectionStatus" where
  "NotecardConnectionStatus_of x =
     \<lparr> transport_connected = (x AND 0x01 \<noteq> 0),
       connected_to_notehub = (x AND 0x02 \<noteq> 0),
       notecard_error = (x AND 0x04 \<noteq> 0),
       host_error = (x AND 0x08 \<noteq> 0),
       reserved = ucast (x AND 0xF0) \<rparr>"

text \<open>The conversion operator to \<^verbatim>\<open>uint_fast8_t\<close>.\<close>

definition to_uint_fast8_t :: "NotecardConnectionStatus \<Rightarrow> uint_fast8_t" where
  "to_uint_fast8_t s =
     push_bit 4 (ucast (reserved s)) OR push_bit 3 (of_bool (host_error s))
       OR push_bit 2 (of_bool (notecard_error s))
       OR push_bit 1 (of_bool (connected_to_notehub s))
       OR of_bool (transport_connected s)"

subsection \<open>The handler\<close>

datatype NetworkConnectionState =
    INIT
  | CONNECTING
  | CONNECTED
  | DISCONNECTING
  | DISCONNECTED
  | CLOSED
  | ERROR

text \<open>
  Modelled from the spec: the header that declares \<^verbatim>\<open>NotecardCommunicationError\<close> is
  not under src/. Section 4.6 of the spec asks for a success status, a generic
  transactional error, a host-side allocation failure that is distinct from it, and a
  "no data" sentinel that no byte can be taken for; the codes are those of an
  \<^verbatim>\<open>int\<close> enumeration counting down from zero.
\<close>

datatype NotecardCommunicationError =
    NOTECARD_ERROR_NONE
  | NOTECARD_ERROR_NO_DATA_AVAILABLE
  | NOTECARD_ERROR_GENERIC
  | HOST_ERROR_OUT_OF_MEMORY

fun error_code :: "NotecardCommunicationError \<Rightarrow> int" where
  "error_code NOTECARD_ERROR_NONE = 0"
| "error_code NOTECARD_ERROR_NO_DATA_AVAILABLE = - 1"
| "error_code NOTECARD_ERROR_GENERIC = - 2"
| "error_code HOST_ERROR_OUT_OF_MEMORY = - 3"

text \<open>
  The fields of the class, with \<^verbatim>\<open>_keep_alive\<close> of the base class
  \<^verbatim>\<open>ConnectionHandler\<close>. A pointer that may be null is an option; \<^verbatim>\<open>_serial\<close> and
  \<^verbatim>\<open>_wire\<close> hold the name of a port. \<^verbatim>\<open>_inbound_buffer\<close> is the block the pointer
  refers to. \<^verbatim>\<open>unsigned long\<close> is 32 bits wide on the boards the library targets, as is
  the counter \<^verbatim>\<open>millis()\<close> reads. The member \<^verbatim>\<open>_notecard\<close> is the outside state.
\<close>

record NotecardConnectionHandler =
  keep_alive :: bool
  serial :: "nat option"
  wire :: "nat option"
  inbound_buffer :: "uint8_t list option"
  conn_start_ms :: uint32_t
  i2c_address :: uint32_t
  i2c_max :: uint32_t
  uart_speed :: uint32_t
  inbound_buffer_index :: uint32_t
  inbound_buffer_size :: uint32_t
  en_hw_int :: bool
  dev_uid :: string
  notehub_url :: string
  project_uid :: string

text \<open>The two constructors: over I2C, and over a serial port.\<close>

definition NotecardConnectionHandler_i2c ::
  "string \<Rightarrow> bool \<Rightarrow> bool \<Rightarrow> uint32_t \<Rightarrow> uint32_t \<Rightarrow> nat \<Rightarrow> string \<Rightarrow> NotecardConnectionHandler" where
  "NotecardConnectionHandler_i2c project_uid' en_hw_int' keep_alive' i2c_address' i2c_max' wire' notehub_url' =
     \<lparr> keep_alive = keep_alive', serial = None, wire = Some wire', inbound_buffer = None,
       conn_start_ms = 0, i2c_address = i2c_address', i2c_max = i2c_max', uart_speed = 0,
       inbound_buffer_index = 0, inbound_buffer_size = 0, en_hw_int = en_hw_int',
       dev_uid = [], notehub_url = notehub_url', project_uid = project_uid' \<rparr>"

definition NotecardConnectionHandler_serial ::
  "string \<Rightarrow> nat \<Rightarrow> uint32_t \<Rightarrow> bool \<Rightarrow> bool \<Rightarrow> string \<Rightarrow> NotecardConnectionHandler" where
  "NotecardConnectionHandler_serial project_uid' serial' speed en_hw_int' keep_alive' notehub_url' =
     \<lparr> keep_alive = keep_alive', serial = Some serial', wire = None, inbound_buffer = None,
       conn_start_ms = 0, i2c_address = 0, i2c_max = 0, uart_speed = speed,
       inbound_buffer_index = 0, inbound_buffer_size = 0, en_hw_int = en_hw_int',
       dev_uid = [], notehub_url = notehub_url', project_uid = project_uid' \<rparr>"

text \<open>
  What C++ leaves undefined is an outcome of its own: reading a local variable that was
  never assigned, going through a null pointer, reading past a block.
\<close>

datatype fault = Uninitialized_read | Null_dereference | Out_of_bounds

subsection \<open>Private member functions\<close>

definition armInterrupt :: "'e Notecard \<Rightarrow> 'e \<Rightarrow> bool \<times> 'e" where
  "armInterrupt N e =
     (let (req0, e1) = newRequest N ''card.attn'' e
      in case req0 of
           Some req \<Rightarrow>
             (let req1 = JAddStringToObject req ''mode'' ''rearm,files'';
                  (files, e2) = JAddArrayToObject N req1 ''files'' e1
              in case files of
                   Some req2 \<Rightarrow>
                     (let req3 = JAddItemToArray req2 ''files'' NOTEFILE_SSL_INBOUND;
                          (rsp, e3) = requestAndResponse N (Some req3) e2
                      in if NoteResponseError rsp then (True, e3) else (True, e3))
                 | None \<Rightarrow> (False, e2))
         | None \<Rightarrow> (False, e1))"

definition configureConnection ::
  "'e Notecard \<Rightarrow> bool \<Rightarrow> NotecardConnectionHandler \<Rightarrow> 'e \<Rightarrow> bool \<times> 'e" where
  "configureConnection N connect h e =
     (let (req0, e1) = newRequest N ''hub.set'' e
      in case req0 of
           Some req \<Rightarrow>
             (let req1 = JAddStringToObject req ''host'' (notehub_url h);
                  req2 = JAddStringToObject req1 ''product'' (project_uid h);
                  req3 =
                    (if connect
                     then JAddBoolToObject
                            (JAddIntToObject (JAddStringToObject req2 ''mode'' ''continuous'')
                               ''inbound'' 15)
                            ''sync'' True
                     else JAddStringToObject
                            (JAddStringToObject
                               (JAddIntToObject
                                  (JAddIntToObject (JAddStringToObject req2 ''mode'' ''periodic'')
                                     ''inbound'' 1440)
                                  ''outbound'' (- 1))
                               ''vinbound'' ''-'')
                            ''voutbound'' ''-'');
                  (rsp, e2) = requestAndResponse N (Some req3) e1
              in if NoteResponseError rsp then (False, e2) else (True, e2))
         | None \<Rightarrow> (False, e1))"

definition connected :: "'e Notecard \<Rightarrow> 'e \<Rightarrow> uint_fast8_t \<times> 'e" where
  "connected N e =
     (let result = NotecardConnectionStatus_void;
          (req, e1) = newRequest N ''hub.status'' e;
          (rsp, e2) = requestAndResponse N req e1
      in case rsp of
           Some r \<Rightarrow>
             (if NoteResponseError rsp
              then (to_uint_fast8_t (result\<lparr>notecard_error := True\<rparr>), e2)
              else (to_uint_fast8_t
                      (result\<lparr>transport_connected :=
                                 (strstr (JGetString rsp ''status'') ''{connected}'' \<noteq> None),
                               connected_to_notehub := JGetBool rsp ''connected'',
                               notecard_error := False,
                               host_error := False\<rparr>), e2))
         | None \<Rightarrow>
             (to_uint_fast8_t
                (result\<lparr>transport_connected := False, connected_to_notehub := False,
                         notecard_error := False, host_error := True\<rparr>), e2))"

definition getNote ::
  "'e Notecard \<Rightarrow> bool \<Rightarrow> NotecardConnectionHandler \<Rightarrow> 'e \<Rightarrow> J option \<times> 'e" where
  "getNote N pop h e =
     (let (req0, e1) = newRequest N ''note.get'' e
      in case req0 of
           Some req \<Rightarrow>
             (let req1 = JAddStringToObject req ''file'' NOTEFILE_SSL_INBOUND;
                  req2 = (if pop then JAddBoolToObject req1 ''delete'' True else req1);
                  (note, e2) = requestAndResponse N (Some req2) e1
              in if NoteResponseError note
                 then (let jErr = JGetString note ''err''
                       in if NoteErrorContains jErr ''{note-noexist}''
                          then (if en_hw_int h
                                then (let (armed, e3) = armInterrupt N e2 in (None, e3))
                                else (None, e2))
                          else (None, e2))
                 else (note, e2))
         | None \<Rightarrow> (None, e1))"

subsection \<open>Public member functions\<close>

definition getTime ::
  "'e Notecard \<Rightarrow> NotecardConnectionHandler \<Rightarrow> 'e \<Rightarrow> uint32_t \<times> NotecardConnectionHandler \<times> 'e" where
  "getTime N h e =
     (let (req, e1) = newRequest N ''card.time'' e;
          (rsp, e2) = requestAndResponse N req e1
      in case rsp of
           Some r \<Rightarrow>
             (if NoteResponseError rsp then (0, h, e2)
              else (word_of_int (JGetInt rsp ''time''), h, e2))
         | None \<Rightarrow> (0, h, e2))"

text \<open>
  \<^verbatim>\<open>write(buf, size)\<close>, named \<open>write_buf\<close> since \<open>write\<close> is a keyword of Isabelle:
  the list is the \<^verbatim>\<open>size\<close> bytes at \<^verbatim>\<open>buf\<close>.
\<close>

definition write_buf ::
  "'e Notecard \<Rightarrow> uint8_t list \<Rightarrow> NotecardConnectionHandler \<Rightarrow> 'e
     \<Rightarrow> int \<times> NotecardConnectionHandler \<times> 'e" where
  "write_buf N buf h e =
     (let (req0, e1) = newRequest N ''note.add'' e
      in case req0 of
           Some req \<Rightarrow>
             (let req1 = JAddStringToObject req ''file'' NOTEFILE_SSL_OUTBOUND;
                  req2 = JAddBinaryToObject req1 ''payload'' buf;
                  req3 = (if keep_alive h then JAddBoolToObject req2 ''sync'' True else req2);
                  (rsp, e2) = requestAndResponse N (Some req3) e1
              in if NoteResponseError rsp
                 then (error_code NOTECARD_ERROR_GENERIC, h, e2)
                 else (error_code NOTECARD_ERROR_NONE, h, e2))
         | None \<Rightarrow> (error_code HOST_ERROR_OUT_OF_MEMORY, h, e1))"

text \<open>
  \<^verbatim>\<open>read()\<close>. The byte at the cursor is there to read only if the pointer is not null
  and the cursor lies inside the block.
\<close>

definition read ::
  "NotecardConnectionHandler \<Rightarrow> 'e \<Rightarrow> fault + (int \<times> NotecardConnectionHandler \<times> 'e)" where
  "read h e =
     (if inbound_buffer_index h < inbound_buffer_size h
      then (case inbound_buffer h of
              None \<Rightarrow> Inl Null_dereference
            | Some buf \<Rightarrow>
                if unat (inbound_buffer_index h) < length buf
                then Inr (uint (buf ! unat (inbound_buffer_index h)),
                          h\<lparr>inbound_buffer_index := inbound_buffer_index h + 1\<rparr>, e)
                else Inl Out_of_bounds)
      else Inr (error_code NOTECARD_ERROR_NO_DATA_AVAILABLE, h, e))"

text \<open>
  \<^verbatim>\<open>available()\<close>. The result of \<^verbatim>\<open>JGetBinaryFromObject\<close> is not looked at: when the
  note has no payload the buffer and its length stay as they were, and the cursor is
  set to zero all the same. The length is a \<^verbatim>\<open>uint32_t\<close>.
\<close>

definition available ::
  "'e Notecard \<Rightarrow> NotecardConnectionHandler \<Rightarrow> 'e \<Rightarrow> bool \<times> NotecardConnectionHandler \<times> 'e" where
  "available N h e =
     (let buffered_data = (inbound_buffer_index h < inbound_buffer_size h)
      in if \<not> buffered_data
         then (let (note, e') = getNote N True h e
               in case note of
                    Some n \<Rightarrow>
                      (let h1 = (case JGetBinaryFromObject n ''payload'' of
                                   Some bs \<Rightarrow> h\<lparr>inbound_buffer := Some bs,
                                                inbound_buffer_size := of_nat (length bs)\<rparr>
                                 | None \<Rightarrow> h);
                           h2 = h1\<lparr>inbound_buffer_index := 0\<rparr>
                       in (True, h2, e'))
                  | None \<Rightarrow> (buffered_data, h, e'))
         else (buffered_data, h, e))"

subsection \<open>Protected member functions: the handlers of the states\<close>

text \<open>
  \<^verbatim>\<open>update_handleInit\<close> is one function of five blocks; each block is a definition here
  and the handler composes them in the order of the source. \<open>millis\<close> is the value
  \<^verbatim>\<open>::millis()\<close> returns to the call.

  Lines 233 to 237: the transport is opened on the serial port when \<^verbatim>\<open>_serial\<close> is
  set, and on \<^verbatim>\<open>*_wire\<close> otherwise.
\<close>

definition init_begin :: "'e Notecard \<Rightarrow> NotecardConnectionHandler \<Rightarrow> 'e \<Rightarrow> fault + 'e" where
  "init_begin N h e =
     (case serial h of
        Some s \<Rightarrow> Inr (nc_begin N (Serial s (uart_speed h)) e)
      | None \<Rightarrow>
          (case wire h of
             Some w \<Rightarrow> Inr (nc_begin N (I2C (i2c_address h) (i2c_max h) w) e)
           | None \<Rightarrow> Inl Null_dereference))"

text \<open>
  Line 222 declares \<^verbatim>\<open>result\<close> and gives it no value. Lines 243 to 246 assign it only
  when \<^verbatim>\<open>getNote(false)\<close> returns a note: \<open>None\<close> is the variable still unassigned.
\<close>

definition init_probe ::
  "'e Notecard \<Rightarrow> NotecardConnectionHandler \<Rightarrow> 'e \<Rightarrow> NetworkConnectionState option \<times> 'e" where
  "init_probe N h e =
     (let (note, e1) = getNote N False h e
      in case note of Some n \<Rightarrow> (Some INIT, e1) | None \<Rightarrow> (None, e1))"

text \<open>Lines 249 to 255: set the project UID.\<close>

definition init_configure ::
  "'e Notecard \<Rightarrow> NetworkConnectionState \<Rightarrow> NotecardConnectionHandler \<Rightarrow> 'e
     \<Rightarrow> NetworkConnectionState \<times> 'e" where
  "init_configure N result h e =
     (if INIT = result
      then (let (ok, e1) = configureConnection N True h e
            in if ok then (INIT, e1) else (ERROR, e1))
      else (result, e))"

text \<open>
  Lines 258 to 277 (the inbound file and port) and lines 280 to 299 (the outbound file
  and port): declare the template of a notefile.
\<close>

definition init_template ::
  "'e Notecard \<Rightarrow> string \<Rightarrow> int \<Rightarrow> NetworkConnectionState \<Rightarrow> 'e \<Rightarrow> NetworkConnectionState \<times> 'e" where
  "init_template N file port result e =
     (if INIT = result
      then (let (req0, e1) = newRequest N ''note.template'' e
            in case req0 of
                 Some req \<Rightarrow>
                   (let req1 = JAddStringToObject req ''file'' file;
                        req2 = JAddStringToObject req1 ''format'' ''compact'';
                        req3 = JAddIntToObject req2 ''port'' port;
                        (rsp, e2) = requestAndResponse N (Some req3) e1
                    in if NoteResponseError rsp then (ERROR, e2) else (INIT, e2))
               | None \<Rightarrow> (ERROR, e1))
      else (result, e))"

text \<open>Lines 302 to 324: get the device UID and leave the state.\<close>

definition init_device_uid ::
  "'e Notecard \<Rightarrow> uint32_t \<Rightarrow> NetworkConnectionState \<Rightarrow> NotecardConnectionHandler \<Rightarrow> 'e
     \<Rightarrow> NetworkConnectionState \<times> NotecardConnectionHandler \<times> 'e" where
  "init_device_uid N millis result h e =
     (if INIT = result
      then (let (req, e1) = newRequest N ''hub.get'' e;
                (rsp, e2) = requestAndResponse N req e1
            in case rsp of
                 Some r \<Rightarrow>
                   (if NoteResponseError rsp then (ERROR, h, e2)
                    else (let h1 = h\<lparr>dev_uid := JGetString rsp ''device''\<rparr>
                          in if keep_alive h1
                             then (CONNECTING, h1\<lparr>conn_start_ms := millis\<rparr>, e2)
                             else (DISCONNECTED, h1, e2)))
               | None \<Rightarrow> (ERROR, h, e2))
      else (result, h, e))"

text \<open>
  The handler of INIT. The comparison of line 249 reads \<^verbatim>\<open>result\<close>: when it was never
  assigned, the behaviour is undefined.
\<close>

definition update_handleInit ::
  "'e Notecard \<Rightarrow> uint32_t \<Rightarrow> NotecardConnectionHandler \<Rightarrow> 'e
     \<Rightarrow> fault + (NetworkConnectionState \<times> NotecardConnectionHandler \<times> 'e)" where
  "update_handleInit N millis h e =
     (case init_begin N h e of
        Inl f \<Rightarrow> Inl f
      | Inr e0 \<Rightarrow>
          (let (unassigned, e1) = init_probe N h e0
           in case unassigned of
                None \<Rightarrow> Inl Uninitialized_read
              | Some result1 \<Rightarrow>
                  (let (result2, e2) = init_configure N result1 h e1;
                       (result3, e3) =
                         init_template N NOTEFILE_SSL_INBOUND NOTEFILE_INBOUND_LORA_PORT result2 e2;
                       (result4, e4) =
                         init_template N NOTEFILE_SSL_OUTBOUND NOTEFILE_OUTBOUND_LORA_PORT result3 e3
                   in Inr (init_device_uid N millis result4 h e4))))"

text \<open>
  The handler of CONNECTING. \<^verbatim>\<open>NOTEHUB_CONN_TIMEOUT_MS\<close> is declared in a header that is
  not under src/ and is a parameter. The subtraction is that of \<^verbatim>\<open>unsigned long\<close>: it
  wraps around as the counter does.
\<close>

definition update_handleConnecting ::
  "'e Notecard \<Rightarrow> uint32_t \<Rightarrow> uint32_t \<Rightarrow> NotecardConnectionHandler \<Rightarrow> 'e
     \<Rightarrow> NetworkConnectionState \<times> NotecardConnectionHandler \<times> 'e" where
  "update_handleConnecting N NOTEHUB_CONN_TIMEOUT_MS millis h e =
     (let (x, e1) = connected N e;
          conn_status = NotecardConnectionStatus_of x
      in if \<not> connected_to_notehub conn_status
         then (if millis - conn_start_ms h > NOTEHUB_CONN_TIMEOUT_MS
               then (INIT, h, e1)
               else (CONNECTING, h, e1))
         else (CONNECTED, h, e1))"

definition update_handleConnected ::
  "'e Notecard \<Rightarrow> NotecardConnectionHandler \<Rightarrow> 'e
     \<Rightarrow> NetworkConnectionState \<times> NotecardConnectionHandler \<times> 'e" where
  "update_handleConnected N h e =
     (let (x, e1) = connected N e;
          conn_status = NotecardConnectionStatus_of x
      in if \<not> connected_to_notehub conn_status
         then (DISCONNECTED, h, e1)
         else (CONNECTED, h, e1))"

definition update_handleDisconnecting ::
  "'e Notecard \<Rightarrow> NotecardConnectionHandler \<Rightarrow> 'e
     \<Rightarrow> NetworkConnectionState \<times> NotecardConnectionHandler \<times> 'e" where
  "update_handleDisconnecting N h e = (DISCONNECTED, h, e)"

definition update_handleDisconnected ::
  "'e Notecard \<Rightarrow> NotecardConnectionHandler \<Rightarrow> 'e
     \<Rightarrow> NetworkConnectionState \<times> NotecardConnectionHandler \<times> 'e" where
  "update_handleDisconnected N h e =
     (if keep_alive h then (INIT, h, e)
      else (let (ok, e1) = configureConnection N False h e
            in if ok then (CLOSED, h, e1) else (ERROR, h, e1)))"

subsection \<open>Callers\<close>

text \<open>
  Modelled from the spec: the driver that ticks the state machine is not under src/.
  Section 2 of the spec has it call the handler of the current state and keep the state
  the handler returns. \<open>ticks_CONNECTED n\<close> is \<open>n\<close> of its ticks from CONNECTED, for as
  long as the state stays there.
\<close>

fun ticks_CONNECTED ::
  "'e Notecard \<Rightarrow> nat \<Rightarrow> NotecardConnectionHandler \<Rightarrow> 'e
     \<Rightarrow> NetworkConnectionState \<times> NotecardConnectionHandler \<times> 'e" where
  "ticks_CONNECTED N 0 h e = (CONNECTED, h, e)"
| "ticks_CONNECTED N (Suc n) h e =
     (let (s, h1, e1) = update_handleConnected N h e
      in if s = CONNECTED then ticks_CONNECTED N n h1 e1 else (s, h1, e1))"

text \<open>
  Modelled from the spec: the consumer of the stream (section 8, the round trip) calls
  \<^verbatim>\<open>available()\<close> and, each time it answers true, \<^verbatim>\<open>read()\<close> once, and stops when
  \<^verbatim>\<open>available()\<close> answers false. The loop need not end (a queue may be refilled for
  ever), so it runs on fuel: \<open>None\<close> is a loop that has not ended yet. The result is
  what the calls of \<^verbatim>\<open>read()\<close> returned, in order.
\<close>

fun drain ::
  "nat \<Rightarrow> 'e Notecard \<Rightarrow> NotecardConnectionHandler \<Rightarrow> 'e
     \<Rightarrow> (fault + (int list \<times> NotecardConnectionHandler \<times> 'e)) option" where
  "drain 0 N h e = None"
| "drain (Suc fuel) N h e =
     (let (more, h1, e1) = available N h e
      in if more
         then (case read h1 e1 of
                 Inl f \<Rightarrow> Some (Inl f)
               | Inr (b, h2, e2) \<Rightarrow>
                   (case drain fuel N h2 e2 of
                      None \<Rightarrow> None
                    | Some (Inl f) \<Rightarrow> Some (Inl f)
                    | Some (Inr (bs, h3, e3)) \<Rightarrow> Some (Inr (b # bs, h3, e3))))
         else Some (Inr ([], h1, e1)))"

subsection \<open>A substitute Notecard\<close>

text \<open>
  Modelled from the spec: section 9 asks for the transaction library as a capability
  that a substitute can implement, and section 8 for a simulated relay. The substitute
  keeps the two notefiles as queues of payloads, answers \<^verbatim>\<open>note.get\<close> on an empty
  queue with the error \<^verbatim>\<open>{note-noexist}\<close>, and answers every transaction named in
  \<open>sim_failing\<close> with an error. \<open>sim_heap\<close> is the number of allocations the host can
  still make, \<open>None\<close> when memory never runs out.
\<close>

record sim =
  sim_heap :: "nat option"
  sim_failing :: "string list"
  sim_inbound :: "uint8_t list list"
  sim_outbound :: "uint8_t list list"
  sim_status :: string
  sim_connected :: bool
  sim_armed :: bool
  sim_port :: "transport option"

definition sim_malloc :: "sim \<Rightarrow> bool \<times> sim" where
  "sim_malloc s =
     (case sim_heap s of
        None \<Rightarrow> (True, s)
      | Some 0 \<Rightarrow> (False, s)
      | Some (Suc k) \<Rightarrow> (True, s\<lparr>sim_heap := Some k\<rparr>))"

definition sim_transaction :: "J \<Rightarrow> sim \<Rightarrow> J option \<times> sim" where
  "sim_transaction req s =
     (let name = JGetString (Some req) ''req''
      in if name \<in> set (sim_failing s) then (Some [(''err'', JString ''refused {io}'')], s)
         else if name = ''note.add''
         then (case JGetBinaryFromObject req ''payload'' of
                 Some p \<Rightarrow>
                   (if JGetString (Some req) ''file'' = NOTEFILE_SSL_OUTBOUND
                    then (Some [], s\<lparr>sim_outbound := sim_outbound s @ [p]\<rparr>)
                    else (Some [], s))
               | None \<Rightarrow> (Some [(''err'', JString ''no payload'')], s))
         else if name = ''note.get''
         then (case sim_inbound s of
                 [] \<Rightarrow> (Some [(''err'', JString ''no notes available in queue {note-noexist}'')], s)
               | p # ps \<Rightarrow>
                   (Some [(''payload'', JBinary p)],
                    if JGetBool (Some req) ''delete'' then s\<lparr>sim_inbound := ps\<rparr> else s))
         else if name = ''hub.status''
         then (Some [(''status'', JString (sim_status s)), (''connected'', JBool (sim_connected s))], s)
         else if name = ''hub.get'' then (Some [(''device'', JString ''dev:864475040000000'')], s)
         else if name = ''card.attn'' then (Some [], s\<lparr>sim_armed := True\<rparr>)
         else if name = ''card.time'' then (Some [(''time'', JInt 1700000000)], s)
         else (Some [], s))"

definition sim_begin :: "transport \<Rightarrow> sim \<Rightarrow> sim" where
  "sim_begin t s = s\<lparr>sim_port := Some t\<rparr>"

definition sim_Notecard :: "sim Notecard" where
  "sim_Notecard =
     \<lparr> nc_malloc = sim_malloc, nc_transaction = sim_transaction, nc_begin = sim_begin \<rparr>"

text \<open>The simulated relay hands every payload of the outbound queue back in the inbound queue.\<close>

definition sim_relay :: "sim \<Rightarrow> sim" where
  "sim_relay s = s\<lparr>sim_inbound := sim_inbound s @ sim_outbound s, sim_outbound := []\<rparr>"

text \<open>A Notecard at rest: ample memory, empty queues, no link.\<close>

definition sim_idle :: sim where
  "sim_idle =
     \<lparr> sim_heap = None, sim_failing = [], sim_inbound = [], sim_outbound = [],
       sim_status = ''idle'', sim_connected = False, sim_armed = False, sim_port = None \<rparr>"

subsection \<open>Names used by the statements\<close>

text \<open>
  Line 487: the response to the status query, null when the request could not be built
  or the transaction gave nothing back.
\<close>

definition hub_status :: "'e Notecard \<Rightarrow> 'e \<Rightarrow> J option \<times> 'e" where
  "hub_status N e =
     (let (req, e1) = newRequest N ''hub.status'' e in requestAndResponse N req e1)"

text \<open>
  Lines 332 and 361: the status as the handlers hold it,
  \<^verbatim>\<open>const NotecardConnectionStatus conn_status = connected();\<close>
\<close>

definition conn_status :: "'e Notecard \<Rightarrow> 'e \<Rightarrow> NotecardConnectionStatus" where
  "conn_status N e = NotecardConnectionStatus_of (fst (connected N e))"

text \<open>
  The inbound buffer is well formed when the length the handler keeps does not exceed
  the block behind the pointer, and is zero while the pointer is null.
\<close>

definition buffer_ok :: "NotecardConnectionHandler \<Rightarrow> bool" where
  "buffer_ok h =
     (case inbound_buffer h of
        None \<Rightarrow> inbound_buffer_size h = 0
      | Some buf \<Rightarrow> unat (inbound_buffer_size h) \<le> length buf)"

section \<open>Properties\<close>

subsection \<open>The library model\<close>

lemma strstr_Some_sublist: "strstr h n = Some k \<Longrightarrow> \<exists>p s. h = p @ n @ s \<and> length p = k"
proof (induction h arbitrary: k)
  case Nil
  then show ?case by (simp split: if_splits)
next
  case (Cons c cs)
  show ?case
  proof (cases "prefix n (c # cs)")
    case True
    with Cons.prems have "k = 0" by simp
    with True show ?thesis by (auto simp: prefix_def)
  next
    case False
    with Cons.prems obtain k' where k': "strstr cs n = Some k'" "k = Suc k'" by auto
    from Cons.IH [OF k'(1)] obtain p s where "cs = p @ n @ s" "length p = k'" by blast
    then have "c # cs = (c # p) @ n @ s \<and> length (c # p) = k" using k' by simp
    then show ?thesis by blast
  qed
qed

lemma strstr_sublist_Some: "h = p @ n @ s \<Longrightarrow> strstr h n \<noteq> None"
proof (induction p arbitrary: h)
  case Nil
  show ?case
  proof (cases h)
    case Nil
    with Nil.prems show ?thesis by simp
  next
    case (Cons c cs)
    with Nil.prems have "prefix n (c # cs)" by (simp add: prefix_def)
    with Cons show ?thesis by simp
  qed
next
  case (Cons a p)
  then show ?case by auto
qed

text \<open>\<^verbatim>\<open>strstr\<close> finds the needle exactly when the haystack contains it.\<close>

lemma strstr_iff: "strstr h n \<noteq> None \<longleftrightarrow> (\<exists>p s. h = p @ n @ s)"
  using strstr_Some_sublist strstr_sublist_Some by blast

text \<open>The definitions that evaluate a call on the substitute Notecard.\<close>

lemmas sim_eval =
  sim_Notecard_def sim_malloc_def sim_transaction_def sim_begin_def sim_idle_def
  newRequest_def requestAndResponse_def JAddArrayToObject_def
  JAddStringToObject_def JAddIntToObject_def JAddBoolToObject_def JAddBinaryToObject_def
  JGetString_def JGetBool_def JGetInt_def JGetBinaryFromObject_def NoteResponseError_def
  NoteErrorContains_def NOTEFILE_SSL_INBOUND_def NOTEFILE_SSL_OUTBOUND_def
  NOTEFILE_BASE_NAME_def NOTEFILE_INBOUND_LORA_PORT_def NOTEFILE_OUTBOUND_LORA_PORT_def

subsection \<open>The status probe\<close>

text \<open>The four flags survive the passage through \<^verbatim>\<open>uint_fast8_t\<close>.\<close>

lemma status_roundtrip:
  "reserved s = 0 \<Longrightarrow> NotecardConnectionStatus_of (to_uint_fast8_t s) = s"
  by (cases s; cases "transport_connected s"; cases "connected_to_notehub s";
      cases "notecard_error s"; cases "host_error s")
     (simp_all add: NotecardConnectionStatus_of_def to_uint_fast8_t_def)

lemma connected_null:
  assumes "newRequest N ''hub.status'' e = (req, e1)"
    and "requestAndResponse N req e1 = (None, e2)"
  shows "connected N e = (to_uint_fast8_t (NotecardConnectionStatus_void\<lparr>host_error := True\<rparr>), e2)"
  using assms by (simp add: connected_def NotecardConnectionStatus_void_def)

lemma connected_error:
  assumes "newRequest N ''hub.status'' e = (req, e1)"
    and "requestAndResponse N req e1 = (Some rsp, e2)"
    and "NoteResponseError (Some rsp)"
  shows "connected N e =
    (to_uint_fast8_t (NotecardConnectionStatus_void\<lparr>notecard_error := True\<rparr>), e2)"
  using assms by (simp add: connected_def)

lemma connected_answer:
  assumes "newRequest N ''hub.status'' e = (req, e1)"
    and "requestAndResponse N req e1 = (Some rsp, e2)"
    and "\<not> NoteResponseError (Some rsp)"
  shows "connected N e =
    (to_uint_fast8_t
       (NotecardConnectionStatus_void
          \<lparr>transport_connected := (strstr (JGetString (Some rsp) ''status'') ''{connected}'' \<noteq> None),
           connected_to_notehub := JGetBool (Some rsp) ''connected''\<rparr>), e2)"
  using assms by (simp add: connected_def NotecardConnectionStatus_void_def)

lemma hub_status_split:
  obtains req e1 rsp e2 where "newRequest N ''hub.status'' e = (req, e1)"
    "requestAndResponse N req e1 = (rsp, e2)" "hub_status N e = (rsp, e2)"
proof -
  obtain req e1 where a: "newRequest N ''hub.status'' e = (req, e1)"
    by (cases "newRequest N ''hub.status'' e")
  obtain rsp e2 where b: "requestAndResponse N req e1 = (rsp, e2)"
    by (cases "requestAndResponse N req e1")
  from a b have "hub_status N e = (rsp, e2)" by (simp add: hub_status_def)
  with a b that show ?thesis by blast
qed

lemma conn_status_null:
  assumes "fst (hub_status N e) = None"
  shows "conn_status N e = NotecardConnectionStatus_void\<lparr>host_error := True\<rparr>"
proof -
  obtain req e1 rsp e2 where s: "newRequest N ''hub.status'' e = (req, e1)"
    "requestAndResponse N req e1 = (rsp, e2)" "hub_status N e = (rsp, e2)"
    by (rule hub_status_split)
  with assms have "rsp = None" by simp
  with s show ?thesis
    by (simp add: conn_status_def connected_null status_roundtrip NotecardConnectionStatus_void_def)
qed

lemma conn_status_error:
  assumes "fst (hub_status N e) = Some rsp" "NoteResponseError (Some rsp)"
  shows "conn_status N e = NotecardConnectionStatus_void\<lparr>notecard_error := True\<rparr>"
proof -
  obtain req e1 rsp' e2 where s: "newRequest N ''hub.status'' e = (req, e1)"
    "requestAndResponse N req e1 = (rsp', e2)" "hub_status N e = (rsp', e2)"
    by (rule hub_status_split)
  with assms have "rsp' = Some rsp" by simp
  with s assms show ?thesis
    by (simp add: conn_status_def connected_error status_roundtrip NotecardConnectionStatus_void_def)
qed

lemma conn_status_answer:
  assumes "fst (hub_status N e) = Some rsp" "\<not> NoteResponseError (Some rsp)"
  shows "conn_status N e = NotecardConnectionStatus_void
          \<lparr>transport_connected := (strstr (JGetString (Some rsp) ''status'') ''{connected}'' \<noteq> None),
           connected_to_notehub := JGetBool (Some rsp) ''connected''\<rparr>"
proof -
  obtain req e1 rsp' e2 where s: "newRequest N ''hub.status'' e = (req, e1)"
    "requestAndResponse N req e1 = (rsp', e2)" "hub_status N e = (rsp', e2)"
    by (rule hub_status_split)
  with assms have "rsp' = Some rsp" by simp
  with s assms show ?thesis
    by (simp add: conn_status_def connected_answer status_roundtrip NotecardConnectionStatus_void_def)
qed

text \<open>
  C5. When the status query is answered and the answer carries no protocol error, the
  status the handlers decode has both error flags clear, \<open>transport_connected\<close> is true
  exactly when the text of the \<^verbatim>\<open>status\<close> field contains \<^verbatim>\<open>{connected}\<close>, and
  \<open>connected_to_notehub\<close> is the boolean of the \<^verbatim>\<open>connected\<close> field. The two are
  decoded independently: the witness is an answer whose text holds the token while its
  boolean is false.
\<close>

theorem connected_decodes_answer:
  assumes "fst (hub_status N e) = Some rsp" and "\<not> NoteResponseError (Some rsp)"
  shows "\<not> notecard_error (conn_status N e) \<and> \<not> host_error (conn_status N e)
    \<and> (transport_connected (conn_status N e)
         \<longleftrightarrow> (\<exists>p s. JGetString (Some rsp) ''status'' = p @ ''{connected}'' @ s))
    \<and> connected_to_notehub (conn_status N e) = JGetBool (Some rsp) ''connected''"
proof -
  have s: "conn_status N e = NotecardConnectionStatus_void
          \<lparr>transport_connected := (strstr (JGetString (Some rsp) ''status'') ''{connected}'' \<noteq> None),
           connected_to_notehub := JGetBool (Some rsp) ''connected''\<rparr>"
    using assms by (rule conn_status_answer)
  have t: "transport_connected (conn_status N e)
             \<longleftrightarrow> strstr (JGetString (Some rsp) ''status'') ''{connected}'' \<noteq> None"
    by (simp add: s)
  have rest: "\<not> notecard_error (conn_status N e) \<and> \<not> host_error (conn_status N e)
      \<and> connected_to_notehub (conn_status N e) = JGetBool (Some rsp) ''connected''"
    by (simp add: s NotecardConnectionStatus_void_def)
  show ?thesis
    unfolding t strstr_iff using rest by blast
qed

theorem connected_decodes_answer_witness:
  "fst (hub_status sim_Notecard (sim_idle\<lparr>sim_status := ''waiting for hub {connected}''\<rparr>))
     = Some [(''status'', JString ''waiting for hub {connected}''), (''connected'', JBool False)]
   \<and> \<not> NoteResponseError
         (Some [(''status'', JString ''waiting for hub {connected}''), (''connected'', JBool False)])
   \<and> transport_connected
       (conn_status sim_Notecard (sim_idle\<lparr>sim_status := ''waiting for hub {connected}''\<rparr>))
   \<and> \<not> connected_to_notehub
         (conn_status sim_Notecard (sim_idle\<lparr>sim_status := ''waiting for hub {connected}''\<rparr>))
   \<and> \<not> notecard_error
         (conn_status sim_Notecard (sim_idle\<lparr>sim_status := ''waiting for hub {connected}''\<rparr>))
   \<and> \<not> host_error
         (conn_status sim_Notecard (sim_idle\<lparr>sim_status := ''waiting for hub {connected}''\<rparr>))"
proof -
  let ?e = "sim_idle\<lparr>sim_status := ''waiting for hub {connected}''\<rparr>"
  let ?rsp = "[(''status'', JString ''waiting for hub {connected}''), (''connected'', JBool False)]"
  have a: "fst (hub_status sim_Notecard ?e) = Some ?rsp"
    by (simp add: hub_status_def sim_eval)
  have b: "\<not> NoteResponseError (Some ?rsp)"
    by (simp add: NoteResponseError_def)
  have c: "JGetString (Some ?rsp) ''status'' = ''waiting for hub '' @ ''{connected}'' @ []"
    by (simp add: JGetString_def)
  have d: "\<not> JGetBool (Some ?rsp) ''connected''"
    by (simp add: JGetBool_def)
  from connected_decodes_answer [OF a b] c d a b show ?thesis
    by blast
qed

text \<open>
  C6. When the status query gives nothing back (the request could not be built, or the
  transaction returned null), the decoded status has \<open>host_error\<close> set,
  \<open>notecard_error\<close> clear and both connectivity flags false. Whatever the outside
  does, the decoded status never has \<open>notecard_error\<close> and \<open>host_error\<close> both set.
\<close>

theorem connected_host_failure:
  "(fst (hub_status N e) = None \<longrightarrow>
      host_error (conn_status N e) \<and> \<not> notecard_error (conn_status N e)
      \<and> \<not> transport_connected (conn_status N e) \<and> \<not> connected_to_notehub (conn_status N e))
   \<and> \<not> (notecard_error (conn_status N e) \<and> host_error (conn_status N e))"
proof -
  have one: "host_error (conn_status N e) \<and> \<not> notecard_error (conn_status N e)
      \<and> \<not> transport_connected (conn_status N e) \<and> \<not> connected_to_notehub (conn_status N e)"
    if "fst (hub_status N e) = None"
    using that by (simp add: conn_status_null NotecardConnectionStatus_void_def)
  have two: "\<not> (notecard_error (conn_status N e) \<and> host_error (conn_status N e))"
  proof (cases "fst (hub_status N e)")
    case None
    then show ?thesis by (simp add: conn_status_null NotecardConnectionStatus_void_def)
  next
    case (Some rsp)
    then show ?thesis
      by (cases "NoteResponseError (Some rsp)")
         (simp_all add: conn_status_error conn_status_answer NotecardConnectionStatus_void_def)
  qed
  from one two show ?thesis by blast
qed

theorem connected_host_failure_witness:
  "fst (hub_status sim_Notecard (sim_idle\<lparr>sim_heap := Some 0\<rparr>)) = None
   \<and> host_error (conn_status sim_Notecard (sim_idle\<lparr>sim_heap := Some 0\<rparr>))
   \<and> \<not> notecard_error (conn_status sim_Notecard (sim_idle\<lparr>sim_heap := Some 0\<rparr>))
   \<and> \<not> transport_connected (conn_status sim_Notecard (sim_idle\<lparr>sim_heap := Some 0\<rparr>))
   \<and> \<not> connected_to_notehub (conn_status sim_Notecard (sim_idle\<lparr>sim_heap := Some 0\<rparr>))"
proof -
  have a: "fst (hub_status sim_Notecard (sim_idle\<lparr>sim_heap := Some 0\<rparr>)) = None"
    by (simp add: hub_status_def sim_eval)
  from connected_host_failure [of sim_Notecard "sim_idle\<lparr>sim_heap := Some 0\<rparr>"] a
  show ?thesis by blast
qed

subsection \<open>The handlers of CONNECTED and CONNECTING\<close>

lemma update_handleConnected_eq:
  "update_handleConnected N h e =
     (if connected_to_notehub (conn_status N e) then CONNECTED else DISCONNECTED, h, snd (connected N e))"
  by (simp add: update_handleConnected_def conn_status_def split: prod.splits)

lemma update_handleConnecting_eq:
  "update_handleConnecting N T millis h e =
     (if connected_to_notehub (conn_status N e) then CONNECTED
      else if millis - conn_start_ms h > T then INIT else CONNECTING, h, snd (connected N e))"
  by (simp add: update_handleConnecting_def conn_status_def split: prod.splits)

lemma ticks_CONNECTED_steady:
  "(\<forall>k<n. connected_to_notehub (conn_status N (((\<lambda>x. snd (connected N x)) ^^ k) e)))
    \<Longrightarrow> ticks_CONNECTED N n h e = (CONNECTED, h, ((\<lambda>x. snd (connected N x)) ^^ n) e)"
proof (induction n arbitrary: e)
  case 0
  show ?case by simp
next
  case (Suc n)
  from Suc.prems have here: "connected_to_notehub (conn_status N e)" by force
  have later: "\<forall>k<n. connected_to_notehub
      (conn_status N (((\<lambda>x. snd (connected N x)) ^^ k) (snd (connected N e))))"
  proof (intro allI impI)
    fix k assume "k < n"
    then have "Suc k < Suc n" by simp
    with Suc.prems have "connected_to_notehub (conn_status N (((\<lambda>x. snd (connected N x)) ^^ Suc k) e))"
      by blast
    then show "connected_to_notehub
      (conn_status N (((\<lambda>x. snd (connected N x)) ^^ k) (snd (connected N e))))"
      by (simp only: funpow_Suc_right o_apply)
  qed
  from Suc.IH [OF later] here show ?case
    by (simp add: update_handleConnected_eq funpow_Suc_right del: funpow.simps)
qed

text \<open>
  C3. In CONNECTED, the next state is CONNECTED when the probe reports the relay
  connected and DISCONNECTED when it does not. Any number \<open>n\<close> of ticks, during which
  each probe in turn reports the relay connected, leaves the state CONNECTED and the
  handler as it was; the outside state is the one the \<open>n\<close> probes leave.
\<close>

theorem update_handleConnected_next:
  "(connected_to_notehub (conn_status N e) \<longrightarrow> fst (update_handleConnected N h e) = CONNECTED)
   \<and> (\<not> connected_to_notehub (conn_status N e) \<longrightarrow> fst (update_handleConnected N h e) = DISCONNECTED)
   \<and> ((\<forall>k<n. connected_to_notehub (conn_status N (((\<lambda>x. snd (connected N x)) ^^ k) e)))
        \<longrightarrow> ticks_CONNECTED N n h e = (CONNECTED, h, ((\<lambda>x. snd (connected N x)) ^^ n) e))"
  by (simp add: update_handleConnected_eq ticks_CONNECTED_steady)

lemma sim_connected_frame:
  "snd (connected sim_Notecard (sim_idle\<lparr>sim_connected := b\<rparr>)) = sim_idle\<lparr>sim_connected := b\<rparr>"
  by (simp add: connected_def sim_eval)

lemma sim_conn_status_connected:
  "connected_to_notehub (conn_status sim_Notecard (sim_idle\<lparr>sim_connected := b\<rparr>)) = b"
proof -
  have a: "fst (hub_status sim_Notecard (sim_idle\<lparr>sim_connected := b\<rparr>))
             = Some [(''status'', JString ''idle''), (''connected'', JBool b)]"
    by (simp add: hub_status_def sim_eval)
  have b: "\<not> NoteResponseError (Some [(''status'', JString ''idle''), (''connected'', JBool b)])"
    by (simp add: NoteResponseError_def)
  show ?thesis
    by (simp add: conn_status_answer [OF a b] JGetBool_def)
qed

theorem update_handleConnected_next_witness:
  "connected_to_notehub (conn_status sim_Notecard (sim_idle\<lparr>sim_connected := True\<rparr>))
   \<and> fst (update_handleConnected sim_Notecard
            (NotecardConnectionHandler_i2c ''com.example:app'' False True 23 0 0 [])
            (sim_idle\<lparr>sim_connected := True\<rparr>)) = CONNECTED
   \<and> \<not> connected_to_notehub (conn_status sim_Notecard (sim_idle\<lparr>sim_connected := False\<rparr>))
   \<and> fst (update_handleConnected sim_Notecard
            (NotecardConnectionHandler_i2c ''com.example:app'' False True 23 0 0 [])
            (sim_idle\<lparr>sim_connected := False\<rparr>)) = DISCONNECTED
   \<and> fst (ticks_CONNECTED sim_Notecard 2
            (NotecardConnectionHandler_i2c ''com.example:app'' False True 23 0 0 [])
            (sim_idle\<lparr>sim_connected := True\<rparr>)) = CONNECTED"
proof -
  let ?h = "NotecardConnectionHandler_i2c ''com.example:app'' False True 23 0 0 []"
  let ?up = "sim_idle\<lparr>sim_connected := True\<rparr>"
  let ?down = "sim_idle\<lparr>sim_connected := False\<rparr>"
  have up: "connected_to_notehub (conn_status sim_Notecard ?up)"
    by (simp add: sim_conn_status_connected)
  have down: "\<not> connected_to_notehub (conn_status sim_Notecard ?down)"
    by (simp add: sim_conn_status_connected)
  have steady: "\<forall>k<2. connected_to_notehub
      (conn_status sim_Notecard (((\<lambda>x. snd (connected sim_Notecard x)) ^^ k) ?up))"
  proof (intro allI impI)
    fix k :: nat assume "k < 2"
    then consider "k = 0" | "k = 1" by linarith
    then show "connected_to_notehub
      (conn_status sim_Notecard (((\<lambda>x. snd (connected sim_Notecard x)) ^^ k) ?up))"
      by cases (simp_all add: sim_connected_frame up)
  qed
  from update_handleConnected_next [of sim_Notecard ?up ?h 2] up steady
  have "fst (update_handleConnected sim_Notecard ?h ?up) = CONNECTED"
    and "fst (ticks_CONNECTED sim_Notecard 2 ?h ?up) = CONNECTED"
    by simp_all
  moreover from update_handleConnected_next [of sim_Notecard ?down ?h 0] down
  have "fst (update_handleConnected sim_Notecard ?h ?down) = DISCONNECTED"
    by simp
  ultimately show ?thesis using up down by blast
qed

lemma word32_elapsed:
  assumes "t0 \<le> t1" and "t1 - t0 < 2 ^ 32"
  shows "unat ((of_nat t1 :: 32 word) - of_nat t0) = t1 - t0"
proof -
  from assms(1) have "(of_nat t1 :: 32 word) - of_nat t0 = of_nat (t1 - t0)"
    by (simp add: of_nat_diff)
  with assms(2) show ?thesis
    by (simp add: unat_of_nat)
qed

lemma init_configure_result:
  "init_configure N result h e = (r, e') \<Longrightarrow> result = INIT \<Longrightarrow> r = INIT \<or> r = ERROR"
  by (auto simp: init_configure_def Let_def split: if_splits prod.splits)

lemma init_template_result:
  "init_template N file port result e = (r, e') \<Longrightarrow> result = INIT \<or> result = ERROR \<Longrightarrow> r = INIT \<or> r = ERROR"
  by (auto simp: init_template_def Let_def split: if_splits prod.splits option.splits)

lemmas handler_eval =
  NotecardConnectionHandler_i2c_def NotecardConnectionHandler_serial_def
  update_handleInit_def init_begin_def init_probe_def init_configure_def init_template_def
  init_device_uid_def getNote_def armInterrupt_def configureConnection_def

subsection \<open>The handler of INIT when a note is pending\<close>

lemma init_device_uid_cases:
  assumes "result = INIT \<or> result = ERROR"
  shows "\<exists>s h' e'. init_device_uid N millis result h e = (s, h', e')
     \<and> (s = ERROR \<or> s = CONNECTING \<or> s = DISCONNECTED)
     \<and> (s = CONNECTING \<longrightarrow> keep_alive h \<and> conn_start_ms h' = millis)
     \<and> (s = DISCONNECTED \<longrightarrow> \<not> keep_alive h)
     \<and> (s = ERROR \<longrightarrow> h' = h)"
  using assms
  by (auto simp: init_device_uid_def Let_def split: prod.splits option.splits)

text \<open>
  When the transport opens and the probe finds a pending note, the handler of INIT
  is never a fault: it returns ERROR, CONNECTING or DISCONNECTED; CONNECTING only under
  keep-alive and with the time of the call as start timestamp, DISCONNECTED only
  without keep-alive, and ERROR with the handler's fields as they were.
\<close>

theorem update_handleInit_note_pending:
  assumes "init_begin N h e = Inr e0" and "getNote N False h e0 = (Some note, e1)"
  shows "\<exists>s h' e'. update_handleInit N millis h e = Inr (s, h', e')
     \<and> (s = ERROR \<or> s = CONNECTING \<or> s = DISCONNECTED)
     \<and> (s = CONNECTING \<longrightarrow> keep_alive h \<and> conn_start_ms h' = millis)
     \<and> (s = DISCONNECTED \<longrightarrow> \<not> keep_alive h)
     \<and> (s = ERROR \<longrightarrow> h' = h)"
proof -
  from assms(2) have p: "init_probe N h e0 = (Some INIT, e1)"
    by (simp add: init_probe_def)
  obtain r2 e2 where c: "init_configure N INIT h e1 = (r2, e2)"
    by (cases "init_configure N INIT h e1")
  then have r2: "r2 = INIT \<or> r2 = ERROR" by (simp add: init_configure_result)
  obtain r3 e3 where t1:
    "init_template N NOTEFILE_SSL_INBOUND NOTEFILE_INBOUND_LORA_PORT r2 e2 = (r3, e3)"
    by (cases "init_template N NOTEFILE_SSL_INBOUND NOTEFILE_INBOUND_LORA_PORT r2 e2")
  from t1 r2 have r3: "r3 = INIT \<or> r3 = ERROR" by (rule init_template_result)
  obtain r4 e4 where t2:
    "init_template N NOTEFILE_SSL_OUTBOUND NOTEFILE_OUTBOUND_LORA_PORT r3 e3 = (r4, e4)"
    by (cases "init_template N NOTEFILE_SSL_OUTBOUND NOTEFILE_OUTBOUND_LORA_PORT r3 e3")
  from t2 r3 have r4: "r4 = INIT \<or> r4 = ERROR" by (rule init_template_result)
  from assms(1) p c t1 t2
  have "update_handleInit N millis h e = Inr (init_device_uid N millis r4 h e4)"
    by (simp add: update_handleInit_def)
  with init_device_uid_cases [OF r4, of N millis h e4] show ?thesis
    by auto
qed

theorem update_handleInit_note_pending_witness:
  "init_begin sim_Notecard (NotecardConnectionHandler_i2c ''com.example:app'' False True 23 0 0 [])
      (sim_idle\<lparr>sim_failing := [''note.template''], sim_inbound := [[7]]\<rparr>)
     = Inr (sim_idle\<lparr>sim_failing := [''note.template''], sim_inbound := [[7]],
                     sim_port := Some (I2C 23 0 0)\<rparr>)
   \<and> getNote sim_Notecard False
        (NotecardConnectionHandler_i2c ''com.example:app'' False True 23 0 0 [])
        (sim_idle\<lparr>sim_failing := [''note.template''], sim_inbound := [[7]],
                  sim_port := Some (I2C 23 0 0)\<rparr>)
     = (Some [(''payload'', JBinary [7])],
        sim_idle\<lparr>sim_failing := [''note.template''], sim_inbound := [[7]],
                 sim_port := Some (I2C 23 0 0)\<rparr>)
   \<and> update_handleInit sim_Notecard 1000
        (NotecardConnectionHandler_i2c ''com.example:app'' False True 23 0 0 [])
        (sim_idle\<lparr>sim_failing := [''note.template''], sim_inbound := [[7]]\<rparr>)
     = Inr (ERROR, NotecardConnectionHandler_i2c ''com.example:app'' False True 23 0 0 [],
            sim_idle\<lparr>sim_failing := [''note.template''], sim_inbound := [[7]],
                     sim_port := Some (I2C 23 0 0)\<rparr>)"
proof -
  let ?h = "NotecardConnectionHandler_i2c ''com.example:app'' False True 23 0 0 []"
  let ?e = "sim_idle\<lparr>sim_failing := [''note.template''], sim_inbound := [[7]]\<rparr>"
  let ?opened = "sim_idle\<lparr>sim_failing := [''note.template''], sim_inbound := [[7]],
                     sim_port := Some (I2C 23 0 0)\<rparr>"
  have a: "init_begin sim_Notecard ?h ?e = Inr ?opened"
    by (simp add: handler_eval sim_eval)
  have b: "getNote sim_Notecard False ?h ?opened = (Some [(''payload'', JBinary [7])], ?opened)"
    by (simp add: handler_eval sim_eval)
  have ev: "fst (projr (update_handleInit sim_Notecard 1000 ?h ?e)) = ERROR"
    "snd (snd (projr (update_handleInit sim_Notecard 1000 ?h ?e))) = ?opened"
    by (simp_all add: handler_eval sim_eval)
  from update_handleInit_note_pending [OF a b, of 1000]
  obtain s h' e' where r: "update_handleInit sim_Notecard 1000 ?h ?e = Inr (s, h', e')"
    and unchanged: "s = ERROR \<longrightarrow> h' = ?h"
    by blast
  from r ev have "s = ERROR" and "e' = ?opened"
    by simp_all
  with r unchanged have "update_handleInit sim_Notecard 1000 ?h ?e = Inr (ERROR, ?h, ?opened)"
    by simp
  then show ?thesis
    by (intro conjI a b)
qed

lemma init_template_ok:
  assumes "nc_malloc N e = (True, e1)"
    and "nc_transaction N
           [(''req'', JString ''note.template''), (''file'', JString file),
            (''format'', JString ''compact''), (''port'', JInt port)] e1 = (rsp, e2)"
    and "\<not> NoteResponseError rsp"
  shows "init_template N file port INIT e = (INIT, e2)"
  using assms
  by (simp add: init_template_def newRequest_def requestAndResponse_def
      JAddStringToObject_def JAddIntToObject_def)

text \<open>
  When a note is pending and every step succeeds (the connection is configured,
  both templates are declared without a protocol error, and \<^verbatim>\<open>hub.get\<close> is answered
  without one), the handler of INIT stores the device UID of the answer and returns
  CONNECTING, with the time of the call as start timestamp, under keep-alive, and
  DISCONNECTED otherwise.
\<close>

theorem update_handleInit_success:
  assumes "init_begin N h e = Inr e0" and "getNote N False h e0 = (Some note, e1)"
    and "configureConnection N True h e1 = (True, e2)"
    and "nc_malloc N e2 = (True, e2')"
    and "nc_transaction N
           [(''req'', JString ''note.template''), (''file'', JString ''arduino_iot_cloud.qis''),
            (''format'', JString ''compact''), (''port'', JInt 79)] e2' = (rsp2, e3)"
    and "\<not> NoteResponseError rsp2"
    and "nc_malloc N e3 = (True, e3')"
    and "nc_transaction N
           [(''req'', JString ''note.template''), (''file'', JString ''arduino_iot_cloud.qos''),
            (''format'', JString ''compact''), (''port'', JInt 83)] e3' = (rsp3, e4)"
    and "\<not> NoteResponseError rsp3"
    and "nc_malloc N e4 = (True, e4')"
    and "nc_transaction N [(''req'', JString ''hub.get'')] e4' = (Some rsp4, e5)"
    and "\<not> NoteResponseError (Some rsp4)"
  shows "update_handleInit N millis h e =
     Inr (if keep_alive h then CONNECTING else DISCONNECTED,
          if keep_alive h
          then h\<lparr>dev_uid := JGetString (Some rsp4) ''device'', conn_start_ms := millis\<rparr>
          else h\<lparr>dev_uid := JGetString (Some rsp4) ''device''\<rparr>,
          e5)"
proof -
  from assms(2) have p: "init_probe N h e0 = (Some INIT, e1)"
    by (simp add: init_probe_def)
  from assms(3) have c: "init_configure N INIT h e1 = (INIT, e2)"
    by (simp add: init_configure_def)
  from assms(4-6) have t1:
    "init_template N NOTEFILE_SSL_INBOUND NOTEFILE_INBOUND_LORA_PORT INIT e2 = (INIT, e3)"
    by (intro init_template_ok)
       (simp_all add: NOTEFILE_SSL_INBOUND_def NOTEFILE_BASE_NAME_def NOTEFILE_INBOUND_LORA_PORT_def)
  from assms(7-9) have t2:
    "init_template N NOTEFILE_SSL_OUTBOUND NOTEFILE_OUTBOUND_LORA_PORT INIT e3 = (INIT, e4)"
    by (intro init_template_ok)
       (simp_all add: NOTEFILE_SSL_OUTBOUND_def NOTEFILE_BASE_NAME_def NOTEFILE_OUTBOUND_LORA_PORT_def)
  from assms(10-12) have d: "init_device_uid N millis INIT h e4 =
     (if keep_alive h then CONNECTING else DISCONNECTED,
      if keep_alive h
      then h\<lparr>dev_uid := JGetString (Some rsp4) ''device'', conn_start_ms := millis\<rparr>
      else h\<lparr>dev_uid := JGetString (Some rsp4) ''device''\<rparr>,
      e5)"
    by (simp add: init_device_uid_def newRequest_def requestAndResponse_def)
  from assms(1) p c t1 t2 d show ?thesis
    by (simp add: update_handleInit_def)
qed

theorem update_handleInit_success_witness:
  "update_handleInit sim_Notecard 1000
     (NotecardConnectionHandler_serial ''com.example:app'' 1 9600 False False [])
     (sim_idle\<lparr>sim_inbound := [[7]]\<rparr>)
   = Inr (DISCONNECTED,
          (NotecardConnectionHandler_serial ''com.example:app'' 1 9600 False False [])
            \<lparr>dev_uid := ''dev:864475040000000''\<rparr>,
          sim_idle\<lparr>sim_inbound := [[7]], sim_port := Some (Serial 1 9600)\<rparr>)"
proof -
  let ?h = "NotecardConnectionHandler_serial ''com.example:app'' 1 9600 False False []"
  let ?e = "sim_idle\<lparr>sim_inbound := [[7]]\<rparr>"
  let ?opened = "sim_idle\<lparr>sim_inbound := [[7]], sim_port := Some (Serial 1 9600)\<rparr>"
  let ?dev = "[(''device'', JString ''dev:864475040000000'')]"
  have a: "init_begin sim_Notecard ?h ?e = Inr ?opened"
    by (simp add: handler_eval sim_eval)
  have b: "getNote sim_Notecard False ?h ?opened = (Some [(''payload'', JBinary [7])], ?opened)"
    by (simp add: handler_eval sim_eval)
  have c: "configureConnection sim_Notecard True ?h ?opened = (True, ?opened)"
    by (simp add: handler_eval sim_eval)
  have m: "nc_malloc sim_Notecard ?opened = (True, ?opened)"
    by (simp add: sim_eval)
  have t1: "nc_transaction sim_Notecard
           [(''req'', JString ''note.template''), (''file'', JString ''arduino_iot_cloud.qis''),
            (''format'', JString ''compact''), (''port'', JInt 79)] ?opened = (Some [], ?opened)"
    by (simp add: sim_eval)
  have t2: "nc_transaction sim_Notecard
           [(''req'', JString ''note.template''), (''file'', JString ''arduino_iot_cloud.qos''),
            (''format'', JString ''compact''), (''port'', JInt 83)] ?opened = (Some [], ?opened)"
    by (simp add: sim_eval)
  have ok: "\<not> NoteResponseError (Some [])"
    by (simp add: NoteResponseError_def)
  have g: "nc_transaction sim_Notecard [(''req'', JString ''hub.get'')] ?opened = (Some ?dev, ?opened)"
    by (simp add: sim_eval)
  have gok: "\<not> NoteResponseError (Some ?dev)"
    by (simp add: NoteResponseError_def)
  have k: "\<not> keep_alive ?h"
    by (simp add: NotecardConnectionHandler_serial_def)
  have d: "JGetString (Some ?dev) ''device'' = ''dev:864475040000000''"
    by (simp add: JGetString_def)
  from update_handleInit_success [OF a b c m t1 ok m t2 ok m g gok, of 1000] k d
  show ?thesis
    by simp
qed

subsection \<open>The handler of CONNECTING\<close>

text \<open>
  C2, amended. In CONNECTING, the next state is CONNECTED when the probe reports the
  relay connected; otherwise INIT when the time since the start timestamp, measured on
  the 32-bit millisecond counter, exceeds the timeout, and CONNECTING when it does not.
  The handler's fields, the timestamp among them, stay as they were. For a start at
  \<open>t0\<close> and a tick at \<open>t1\<close> milliseconds that lie less than \<open>2 ^ 32\<close> ms apart, the
  comparison of the code is the comparison of \<open>t1 - t0\<close> with the timeout, also when
  the counter rolled over in between. When the handler of INIT is then called with a
  note pending in the inbound queue, it returns a state, and if that state is CONNECTING
  the timestamp it leaves is the time of that call; under keep-alive, when every step of
  the sequence succeeds, it does return CONNECTING with that timestamp. Nothing is said
  of the call of INIT that finds no note.
\<close>

theorem update_handleConnecting_next:
  "(connected_to_notehub (conn_status N e)
      \<longrightarrow> fst (update_handleConnecting N T millis h e) = CONNECTED)
   \<and> (\<not> connected_to_notehub (conn_status N e) \<and> millis - conn_start_ms h > T
      \<longrightarrow> fst (update_handleConnecting N T millis h e) = INIT)
   \<and> (\<not> connected_to_notehub (conn_status N e) \<and> \<not> millis - conn_start_ms h > T
      \<longrightarrow> fst (update_handleConnecting N T millis h e) = CONNECTING)
   \<and> fst (snd (update_handleConnecting N T millis h e)) = h
   \<and> (t0 \<le> t1 \<and> t1 - t0 < 2 ^ 32 \<and> conn_start_ms h = of_nat t0 \<and> millis = of_nat t1
      \<longrightarrow> (millis - conn_start_ms h > T \<longleftrightarrow> t1 - t0 > unat T))
   \<and> (init_begin N h0 w = Inr w0 \<and> getNote N False h0 w0 = (Some pend, w1)
      \<longrightarrow> (\<exists>s h' w'. update_handleInit N now h0 w = Inr (s, h', w')
             \<and> (s = CONNECTING \<longrightarrow> conn_start_ms h' = now)))
   \<and> (keep_alive h0
       \<and> init_begin N h0 w = Inr w0 \<and> getNote N False h0 w0 = (Some pend, w1)
       \<and> configureConnection N True h0 w1 = (True, w2)
       \<and> nc_malloc N w2 = (True, a2)
       \<and> nc_transaction N
            [(''req'', JString ''note.template''), (''file'', JString ''arduino_iot_cloud.qis''),
             (''format'', JString ''compact''), (''port'', JInt 79)] a2 = (rsp2, w3)
       \<and> \<not> NoteResponseError rsp2
       \<and> nc_malloc N w3 = (True, a3)
       \<and> nc_transaction N
            [(''req'', JString ''note.template''), (''file'', JString ''arduino_iot_cloud.qos''),
             (''format'', JString ''compact''), (''port'', JInt 83)] a3 = (rsp3, w4)
       \<and> \<not> NoteResponseError rsp3
       \<and> nc_malloc N w4 = (True, a4)
       \<and> nc_transaction N [(''req'', JString ''hub.get'')] a4 = (Some rsp4, w5)
       \<and> \<not> NoteResponseError (Some rsp4)
      \<longrightarrow> update_handleInit N now h0 w
            = Inr (CONNECTING,
                   h0\<lparr>dev_uid := JGetString (Some rsp4) ''device'', conn_start_ms := now\<rparr>,
                   w5))"
proof -
  have clock: "millis - conn_start_ms h > T \<longleftrightarrow> t1 - t0 > unat T"
    if "t0 \<le> t1 \<and> t1 - t0 < 2 ^ 32 \<and> conn_start_ms h = of_nat t0 \<and> millis = of_nat t1"
    using that by (simp add: word_less_nat_alt word32_elapsed)
  have pending: "\<exists>s h' w'. update_handleInit N now h0 w = Inr (s, h', w')
             \<and> (s = CONNECTING \<longrightarrow> conn_start_ms h' = now)"
    if "init_begin N h0 w = Inr w0 \<and> getNote N False h0 w0 = (Some pend, w1)"
  proof -
    from that have a: "init_begin N h0 w = Inr w0" and b: "getNote N False h0 w0 = (Some pend, w1)"
      by simp_all
    from update_handleInit_note_pending [OF a b, of now] show ?thesis
      by blast
  qed
  have success: "update_handleInit N now h0 w
            = Inr (CONNECTING,
                   h0\<lparr>dev_uid := JGetString (Some rsp4) ''device'', conn_start_ms := now\<rparr>,
                   w5)"
    if "keep_alive h0"
      and "init_begin N h0 w = Inr w0" and "getNote N False h0 w0 = (Some pend, w1)"
      and "configureConnection N True h0 w1 = (True, w2)"
      and "nc_malloc N w2 = (True, a2)"
      and "nc_transaction N
            [(''req'', JString ''note.template''), (''file'', JString ''arduino_iot_cloud.qis''),
             (''format'', JString ''compact''), (''port'', JInt 79)] a2 = (rsp2, w3)"
      and "\<not> NoteResponseError rsp2"
      and "nc_malloc N w3 = (True, a3)"
      and "nc_transaction N
            [(''req'', JString ''note.template''), (''file'', JString ''arduino_iot_cloud.qos''),
             (''format'', JString ''compact''), (''port'', JInt 83)] a3 = (rsp3, w4)"
      and "\<not> NoteResponseError rsp3"
      and "nc_malloc N w4 = (True, a4)"
      and "nc_transaction N [(''req'', JString ''hub.get'')] a4 = (Some rsp4, w5)"
      and "\<not> NoteResponseError (Some rsp4)"
    using update_handleInit_success [OF that(2-13), of now] that(1) by simp
  have transitions:
    "(connected_to_notehub (conn_status N e)
        \<longrightarrow> fst (update_handleConnecting N T millis h e) = CONNECTED)
     \<and> (\<not> connected_to_notehub (conn_status N e) \<and> millis - conn_start_ms h > T
        \<longrightarrow> fst (update_handleConnecting N T millis h e) = INIT)
     \<and> (\<not> connected_to_notehub (conn_status N e) \<and> \<not> millis - conn_start_ms h > T
        \<longrightarrow> fst (update_handleConnecting N T millis h e) = CONNECTING)
     \<and> fst (snd (update_handleConnecting N T millis h e)) = h"
    by (simp add: update_handleConnecting_eq)
  from transitions clock pending success show ?thesis
    by blast
qed

theorem update_handleConnecting_next_witness:
  "\<not> connected_to_notehub (conn_status sim_Notecard (sim_idle\<lparr>sim_connected := False\<rparr>))
   \<and> fst (update_handleConnecting sim_Notecard 185000 190000
            ((NotecardConnectionHandler_i2c ''com.example:app'' False True 23 0 0 [])
               \<lparr>conn_start_ms := 4294966296\<rparr>)
            (sim_idle\<lparr>sim_connected := False\<rparr>)) = INIT
   \<and> fst (update_handleConnecting sim_Notecard 185000 100000
            ((NotecardConnectionHandler_i2c ''com.example:app'' False True 23 0 0 [])
               \<lparr>conn_start_ms := 4294966296\<rparr>)
            (sim_idle\<lparr>sim_connected := False\<rparr>)) = CONNECTING
   \<and> connected_to_notehub (conn_status sim_Notecard (sim_idle\<lparr>sim_connected := True\<rparr>))
   \<and> fst (update_handleConnecting sim_Notecard 185000 190000
            ((NotecardConnectionHandler_i2c ''com.example:app'' False True 23 0 0 [])
               \<lparr>conn_start_ms := 4294966296\<rparr>)
            (sim_idle\<lparr>sim_connected := True\<rparr>)) = CONNECTED
   \<and> (4295157296 :: nat) - 4294966296 > unat (185000 :: 32 word)
   \<and> getNote sim_Notecard False
        ((NotecardConnectionHandler_i2c ''com.example:app'' False True 23 0 0 [])
           \<lparr>conn_start_ms := 4294966296\<rparr>)
        (sim_idle\<lparr>sim_inbound := [[7]], sim_port := Some (I2C 23 0 0)\<rparr>)
      = (Some [(''payload'', JBinary [7])],
         sim_idle\<lparr>sim_inbound := [[7]], sim_port := Some (I2C 23 0 0)\<rparr>)
   \<and> update_handleInit sim_Notecard 190050
        ((NotecardConnectionHandler_i2c ''com.example:app'' False True 23 0 0 [])
           \<lparr>conn_start_ms := 4294966296\<rparr>)
        (sim_idle\<lparr>sim_inbound := [[7]]\<rparr>)
      = Inr (CONNECTING,
             (NotecardConnectionHandler_i2c ''com.example:app'' False True 23 0 0 [])
               \<lparr>conn_start_ms := 190050, dev_uid := ''dev:864475040000000''\<rparr>,
             sim_idle\<lparr>sim_inbound := [[7]], sim_port := Some (I2C 23 0 0)\<rparr>)"
proof -
  let ?h = "(NotecardConnectionHandler_i2c ''com.example:app'' False True 23 0 0 [])
               \<lparr>conn_start_ms := 4294966296\<rparr>"
  let ?up = "sim_idle\<lparr>sim_connected := True\<rparr>"
  let ?down = "sim_idle\<lparr>sim_connected := False\<rparr>"
  let ?fresh = "(NotecardConnectionHandler_i2c ''com.example:app'' False True 23 0 0 [])
               \<lparr>conn_start_ms := 190050, dev_uid := ''dev:864475040000000''\<rparr>"
  let ?queued = "sim_idle\<lparr>sim_inbound := [[7]]\<rparr>"
  let ?opened = "sim_idle\<lparr>sim_inbound := [[7]], sim_port := Some (I2C 23 0 0)\<rparr>"
  let ?note = "[(''payload'', JBinary [7])]"
  let ?dev = "[(''device'', JString ''dev:864475040000000'')]"
  have up: "connected_to_notehub (conn_status sim_Notecard ?up)"
    by (simp add: sim_conn_status_connected)
  have down: "\<not> connected_to_notehub (conn_status sim_Notecard ?down)"
    by (simp add: sim_conn_status_connected)
  have late: "190000 - conn_start_ms ?h > 185000"
    by simp
  have early: "\<not> 100000 - conn_start_ms ?h > 185000"
    by simp
  have clock: "(4294966296 :: nat) \<le> 4295157296 \<and> (4295157296 :: nat) - 4294966296 < 2 ^ 32
      \<and> conn_start_ms ?h = of_nat 4294966296 \<and> (190000 :: 32 word) = of_nat 4295157296"
    by simp
  have chain: "keep_alive ?h
       \<and> init_begin sim_Notecard ?h ?queued = Inr ?opened
       \<and> getNote sim_Notecard False ?h ?opened = (Some ?note, ?opened)
       \<and> configureConnection sim_Notecard True ?h ?opened = (True, ?opened)
       \<and> nc_malloc sim_Notecard ?opened = (True, ?opened)
       \<and> nc_transaction sim_Notecard
            [(''req'', JString ''note.template''), (''file'', JString ''arduino_iot_cloud.qis''),
             (''format'', JString ''compact''), (''port'', JInt 79)] ?opened = (Some [], ?opened)
       \<and> \<not> NoteResponseError (Some [])
       \<and> nc_malloc sim_Notecard ?opened = (True, ?opened)
       \<and> nc_transaction sim_Notecard
            [(''req'', JString ''note.template''), (''file'', JString ''arduino_iot_cloud.qos''),
             (''format'', JString ''compact''), (''port'', JInt 83)] ?opened = (Some [], ?opened)
       \<and> \<not> NoteResponseError (Some [])
       \<and> nc_malloc sim_Notecard ?opened = (True, ?opened)
       \<and> nc_transaction sim_Notecard [(''req'', JString ''hub.get'')] ?opened = (Some ?dev, ?opened)
       \<and> \<not> NoteResponseError (Some ?dev)"
    by (simp add: handler_eval sim_eval)
  then have got: "getNote sim_Notecard False ?h ?opened = (Some ?note, ?opened)"
    by blast
  have dev: "?h\<lparr>dev_uid := JGetString (Some ?dev) ''device'', conn_start_ms := 190050\<rparr> = ?fresh"
    by (simp add: JGetString_def)
  note timed_out =
    update_handleConnecting_next
      [where N = sim_Notecard and e = ?down and T = 185000 and millis = 190000 and h = ?h
         and ?t0.0 = 4294966296 and ?t1.0 = 4295157296 and ?h0.0 = ?h and w = ?queued
         and ?w0.0 = ?opened and pend = ?note and ?w1.0 = ?opened and now = 190050
         and ?w2.0 = ?opened and ?a2.0 = ?opened and ?rsp2.0 = "Some []" and ?w3.0 = ?opened
         and ?a3.0 = ?opened and ?rsp3.0 = "Some []" and ?w4.0 = ?opened and ?a4.0 = ?opened
         and ?rsp4.0 = ?dev and ?w5.0 = ?opened]
  from timed_out down late
  have a: "fst (update_handleConnecting sim_Notecard 185000 190000 ?h ?down) = INIT"
    by blast
  from timed_out clock late
  have c: "(4295157296 :: nat) - 4294966296 > unat (185000 :: 32 word)"
    by blast
  from timed_out chain
  have "update_handleInit sim_Notecard 190050 ?h ?queued
          = Inr (CONNECTING,
                 ?h\<lparr>dev_uid := JGetString (Some ?dev) ''device'', conn_start_ms := 190050\<rparr>,
                 ?opened)"
    by blast
  with dev have init: "update_handleInit sim_Notecard 190050 ?h ?queued
      = Inr (CONNECTING, ?fresh, ?opened)"
    by simp
  from update_handleConnecting_next [where N = sim_Notecard and e = ?down and T = 185000
      and millis = 100000 and h = ?h] down early
  have b: "fst (update_handleConnecting sim_Notecard 185000 100000 ?h ?down) = CONNECTING"
    by blast
  from update_handleConnecting_next [where N = sim_Notecard and e = ?up and T = 185000
      and millis = 190000 and h = ?h] up
  have d: "fst (update_handleConnecting sim_Notecard 185000 190000 ?h ?up) = CONNECTED"
    by blast
  show ?thesis
    by (intro conjI down a b up d c got init)
qed

text \<open>
  C2 as stated fails twice. By the measure the code takes: with the relay disconnected, a
  start at 1000 ms and a tick \<open>2 ^ 32 + 100\<close> ms later, far beyond the timeout of
  185000 ms, the 32-bit difference is 100 and the next state is CONNECTING. And by the
  unassigned variable of C1: after a tick that timed out, the handler of INIT on the
  same Notecard, whose inbound queue is empty, reads \<^verbatim>\<open>result\<close> unassigned, so that
  no transition back into CONNECTING with a fresh timestamp is defined.
\<close>

theorem update_handleConnecting_next_counterexample:
  "\<not> connected_to_notehub (conn_status sim_Notecard (sim_idle\<lparr>sim_connected := False\<rparr>))
   \<and> unat (185000 :: 32 word) < 4294968396 - 1000
   \<and> update_handleConnecting sim_Notecard 185000 (of_nat 4294968396)
        ((NotecardConnectionHandler_i2c ''com.example:app'' False True 23 0 0 [])
           \<lparr>conn_start_ms := of_nat 1000\<rparr>)
        (sim_idle\<lparr>sim_connected := False\<rparr>)
      = (CONNECTING,
         (NotecardConnectionHandler_i2c ''com.example:app'' False True 23 0 0 [])
           \<lparr>conn_start_ms := of_nat 1000\<rparr>,
         sim_idle\<lparr>sim_connected := False\<rparr>)
   \<and> update_handleConnecting sim_Notecard 185000 190000
        ((NotecardConnectionHandler_i2c ''com.example:app'' False True 23 0 0 [])
           \<lparr>conn_start_ms := 1000\<rparr>)
        (sim_idle\<lparr>sim_connected := False\<rparr>)
      = (INIT,
         (NotecardConnectionHandler_i2c ''com.example:app'' False True 23 0 0 [])
           \<lparr>conn_start_ms := 1000\<rparr>,
         sim_idle\<lparr>sim_connected := False\<rparr>)
   \<and> update_handleInit sim_Notecard 190050
        ((NotecardConnectionHandler_i2c ''com.example:app'' False True 23 0 0 [])
           \<lparr>conn_start_ms := 1000\<rparr>)
        (sim_idle\<lparr>sim_connected := False\<rparr>)
      = Inl Uninitialized_read"
proof -
  let ?down = "sim_idle\<lparr>sim_connected := False\<rparr>"
  have down: "\<not> connected_to_notehub (conn_status sim_Notecard ?down)"
    by (simp add: sim_conn_status_connected)
  have frame: "snd (connected sim_Notecard ?down) = ?down"
    by (rule sim_connected_frame)
  have wrapped: "\<not> (of_nat 4294968396 :: 32 word) - of_nat 1000 > 185000"
    by simp
  have late: "(190000 :: 32 word) - 1000 > 185000"
    by simp
  have lost: "update_handleInit sim_Notecard 190050
        ((NotecardConnectionHandler_i2c ''com.example:app'' False True 23 0 0 [])
           \<lparr>conn_start_ms := 1000\<rparr>) ?down = Inl Uninitialized_read"
    by (simp add: handler_eval sim_eval)
  from down frame wrapped late lost show ?thesis
    by (simp add: update_handleConnecting_eq)
qed

subsection \<open>The stream interface\<close>

lemma word32_succ:
  fixes i m :: "32 word"
  assumes "i < m"
  shows "unat (i + 1) = unat i + 1" and "i + 1 \<le> m"
proof -
  from assms have "unat i < unat m"
    by (simp add: word_less_nat_alt)
  moreover have "unat m < 2 ^ 32"
    using unsigned_less [of m] by simp
  ultimately have "unat i + 1 < 2 ^ 32"
    by linarith
  then show "unat (i + 1) = unat i + 1"
    by (simp add: unat_word_ariths)
  from assms show "i + 1 \<le> m"
    by (rule inc_le)
qed

lemma buffer_ok_i2c: "buffer_ok (NotecardConnectionHandler_i2c p i k a m w u)"
  by (simp add: buffer_ok_def NotecardConnectionHandler_i2c_def)

lemma buffer_ok_serial: "buffer_ok (NotecardConnectionHandler_serial p s b i k u)"
  by (simp add: buffer_ok_def NotecardConnectionHandler_serial_def)

lemma buffer_ok_index [simp]: "buffer_ok (h\<lparr>inbound_buffer_index := i\<rparr>) = buffer_ok h"
  by (simp add: buffer_ok_def split: option.splits)

lemma buffer_ok_load:
  "buffer_ok (h\<lparr>inbound_buffer := Some bs, inbound_buffer_size := of_nat (length bs)\<rparr>)"
  by (simp add: buffer_ok_def unat_of_nat)

lemma available_buffer_ok: "buffer_ok h \<Longrightarrow> buffer_ok (fst (snd (available N h e)))"
  by (auto simp: available_def Let_def buffer_ok_load split: prod.splits option.splits)

lemma read_exhausted:
  "\<not> inbound_buffer_index h < inbound_buffer_size h
     \<Longrightarrow> read h e = Inr (error_code NOTECARD_ERROR_NO_DATA_AVAILABLE, h, e)"
  by (simp add: read_def)

lemma read_byte:
  assumes "buffer_ok h" and "inbound_buffer_index h < inbound_buffer_size h"
  shows "\<exists>buf. inbound_buffer h = Some buf \<and> unat (inbound_buffer_index h) < length buf
     \<and> read h e = Inr (uint (buf ! unat (inbound_buffer_index h)),
                       h\<lparr>inbound_buffer_index := inbound_buffer_index h + 1\<rparr>, e)"
proof (cases "inbound_buffer h")
  case None
  with assms show ?thesis by (simp add: buffer_ok_def)
next
  case (Some buf)
  from assms(2) have "unat (inbound_buffer_index h) < unat (inbound_buffer_size h)"
    by (simp add: word_less_nat_alt)
  with assms(1) Some have "unat (inbound_buffer_index h) < length buf"
    by (simp add: buffer_ok_def)
  with Some assms(2) show ?thesis
    by (simp add: read_def)
qed

text \<open>
  C7. When the cursor has reached the length of the buffer, \<^verbatim>\<open>read()\<close> returns the
  "no data" code and leaves the handler, the cursor included, as it was. When the
  buffer is well formed and the cursor is below the length, \<^verbatim>\<open>read()\<close> returns the
  byte at the cursor, which lies inside the block, and moves the cursor on by exactly
  one, without wrapping and not past the length. On a well-formed buffer
  \<^verbatim>\<open>read()\<close> is never a fault and keeps the buffer well formed; the outside state it
  returns is the one it was given, so it issues no transaction, a dequeue included. The
  "no data" code is the value of no byte. Both constructors build a well-formed buffer
  and \<^verbatim>\<open>available()\<close> keeps it so, whatever the outside answers.
\<close>

theorem read_cursor:
  "(\<not> inbound_buffer_index h < inbound_buffer_size h
      \<longrightarrow> read h e = Inr (error_code NOTECARD_ERROR_NO_DATA_AVAILABLE, h, e))
   \<and> (buffer_ok h \<and> inbound_buffer_index h < inbound_buffer_size h
      \<longrightarrow> (\<exists>buf. inbound_buffer h = Some buf \<and> unat (inbound_buffer_index h) < length buf
            \<and> read h e = Inr (uint (buf ! unat (inbound_buffer_index h)),
                              h\<lparr>inbound_buffer_index := inbound_buffer_index h + 1\<rparr>, e))
          \<and> unat (inbound_buffer_index h + 1) = unat (inbound_buffer_index h) + 1
          \<and> inbound_buffer_index h + 1 \<le> inbound_buffer_size h)
   \<and> (buffer_ok h \<longrightarrow> (\<exists>r h'. read h e = Inr (r, h', e) \<and> buffer_ok h'))
   \<and> (\<forall>b :: uint8_t. uint b \<noteq> error_code NOTECARD_ERROR_NO_DATA_AVAILABLE)
   \<and> buffer_ok (NotecardConnectionHandler_i2c p i k a m w u)
   \<and> buffer_ok (NotecardConnectionHandler_serial p sp b i k u)
   \<and> (buffer_ok h \<longrightarrow> buffer_ok (fst (snd (available N h e'))))"
proof -
  have total: "\<exists>r h'. read h e = Inr (r, h', e) \<and> buffer_ok h'" if ok: "buffer_ok h"
  proof (cases "inbound_buffer_index h < inbound_buffer_size h")
    case True
    from read_byte [OF ok True, of e] ok show ?thesis by auto
  next
    case False
    with ok show ?thesis by (simp add: read_exhausted)
  qed
  have sentinel: "\<forall>b :: uint8_t. uint b \<noteq> error_code NOTECARD_ERROR_NO_DATA_AVAILABLE"
  proof
    fix b :: uint8_t
    have "0 \<le> uint b" by simp
    then have "uint b \<noteq> - 1" by linarith
    then show "uint b \<noteq> error_code NOTECARD_ERROR_NO_DATA_AVAILABLE" by simp
  qed
  have step: "unat (inbound_buffer_index h + 1) = unat (inbound_buffer_index h) + 1
      \<and> inbound_buffer_index h + 1 \<le> inbound_buffer_size h"
    if "inbound_buffer_index h < inbound_buffer_size h"
    using word32_succ [OF that] by simp
  from total sentinel step show ?thesis
    by (simp add: read_exhausted read_byte buffer_ok_i2c buffer_ok_serial available_buffer_ok)
qed


theorem read_cursor_witness:
  "buffer_ok ((NotecardConnectionHandler_i2c ''com.example:app'' False True 23 0 0 [])
       \<lparr>inbound_buffer := Some [10, 20], inbound_buffer_index := 1, inbound_buffer_size := 2\<rparr>)
   \<and> read ((NotecardConnectionHandler_i2c ''com.example:app'' False True 23 0 0 [])
       \<lparr>inbound_buffer := Some [10, 20], inbound_buffer_index := 1, inbound_buffer_size := 2\<rparr>)
       sim_idle
     = Inr (20,
            (NotecardConnectionHandler_i2c ''com.example:app'' False True 23 0 0 [])
              \<lparr>inbound_buffer := Some [10, 20], inbound_buffer_index := 2, inbound_buffer_size := 2\<rparr>,
            sim_idle)
   \<and> read ((NotecardConnectionHandler_i2c ''com.example:app'' False True 23 0 0 [])
       \<lparr>inbound_buffer := Some [10, 20], inbound_buffer_index := 2, inbound_buffer_size := 2\<rparr>)
       sim_idle
     = Inr (- 1,
            (NotecardConnectionHandler_i2c ''com.example:app'' False True 23 0 0 [])
              \<lparr>inbound_buffer := Some [10, 20], inbound_buffer_index := 2, inbound_buffer_size := 2\<rparr>,
            sim_idle)"
proof -
  let ?h1 = "(NotecardConnectionHandler_i2c ''com.example:app'' False True 23 0 0 [])
       \<lparr>inbound_buffer := Some [10, 20], inbound_buffer_index := 1, inbound_buffer_size := 2\<rparr>"
  let ?h2 = "(NotecardConnectionHandler_i2c ''com.example:app'' False True 23 0 0 [])
       \<lparr>inbound_buffer := Some [10, 20], inbound_buffer_index := 2, inbound_buffer_size := 2\<rparr>"
  have ok: "buffer_ok ?h1"
    by (simp add: buffer_ok_def)
  have unread: "inbound_buffer_index ?h1 < inbound_buffer_size ?h1"
    by simp
  have exhausted: "\<not> inbound_buffer_index ?h2 < inbound_buffer_size ?h2"
    by simp
  note at_byte = read_cursor [where h = ?h1 and e = sim_idle and N = sim_Notecard
      and e' = sim_idle and p = "[]" and i = False and k = False and a = 0 and m = 0
      and w = 0 and u = "[]" and sp = 0 and b = 0]
  note at_end = read_cursor [where h = ?h2 and e = sim_idle and N = sim_Notecard
      and e' = sim_idle and p = "[]" and i = False and k = False and a = 0 and m = 0
      and w = 0 and u = "[]" and sp = 0 and b = 0]
  from at_byte ok unread
  have one: "read ?h1 sim_idle = Inr (20, ?h2, sim_idle)"
    by simp
  from at_end exhausted
  have "read ?h2 sim_idle = Inr (error_code NOTECARD_ERROR_NO_DATA_AVAILABLE, ?h2, sim_idle)"
    by blast
  then have two: "read ?h2 sim_idle = Inr (- 1, ?h2, sim_idle)"
    by simp
  from ok one two show ?thesis
    by blast
qed

lemma JGetString_err_NoteResponseError:
  "JGetString rsp ''err'' \<noteq> [] \<Longrightarrow> NoteResponseError rsp"
  by (auto simp: JGetString_def NoteResponseError_def split: option.splits J_value.splits)

lemma getNote_queue_empty:
  assumes "nc_malloc N e = (True, e1)"
    and "nc_transaction N
           ([(''req'', JString ''note.get''), (''file'', JString ''arduino_iot_cloud.qis'')]
              @ (if pop then [(''delete'', JBool True)] else [])) e1 = (rsp, e2)"
    and "JGetString rsp ''err'' = p @ ''{note-noexist}'' @ s"
  shows "getNote N pop h e = (None, if en_hw_int h then snd (armInterrupt N e2) else e2)"
proof -
  from assms(3) have err: "NoteResponseError rsp"
    by (intro JGetString_err_NoteResponseError) simp
  from assms(3) have tok: "NoteErrorContains (JGetString rsp ''err'') ''{note-noexist}''"
    unfolding NoteErrorContains_def strstr_iff by blast
  from assms(1) have req: "newRequest N ''note.get'' e = (Some [(''req'', JString ''note.get'')], e1)"
    by (simp add: newRequest_def)
  show ?thesis
  proof (cases pop)
    case True
    with assms(2) err tok req show ?thesis
      by (simp add: getNote_def requestAndResponse_def JAddStringToObject_def JAddBoolToObject_def
          NOTEFILE_SSL_INBOUND_def NOTEFILE_BASE_NAME_def split: prod.splits)
  next
    case False
    with assms(2) err tok req show ?thesis
      by (simp add: getNote_def requestAndResponse_def JAddStringToObject_def JAddBoolToObject_def
          NOTEFILE_SSL_INBOUND_def NOTEFILE_BASE_NAME_def split: prod.splits)
  qed
qed

lemma available_buffered:
  "inbound_buffer_index h < inbound_buffer_size h \<Longrightarrow> available N h e = (True, h, e)"
  by (simp add: available_def)

lemma available_no_note:
  "\<not> inbound_buffer_index h < inbound_buffer_size h \<Longrightarrow> getNote N True h e = (None, e')
     \<Longrightarrow> available N h e = (False, h, e')"
  by (simp add: available_def)

lemma available_False:
  "fst (available N h e) = False \<Longrightarrow> fst (snd (available N h e)) = h"
  by (auto simp: available_def Let_def split: prod.splits option.splits if_splits)

text \<open>
  C8. When the buffer holds unread bytes, \<^verbatim>\<open>available()\<close> returns true and leaves the
  handler and the outside state as they were: no transaction is issued. When the
  buffer has none, the request can be built and the Notecard answers the consuming
  \<^verbatim>\<open>note.get\<close> with an error text that contains \<^verbatim>\<open>{note-noexist}\<close>,
  \<^verbatim>\<open>available()\<close> returns false and leaves the handler (buffer, length and cursor)
  as it was; outside, the interrupt is rearmed when hardware interrupts are enabled.
  Whenever \<^verbatim>\<open>available()\<close> returns false the handler is unchanged.
\<close>

theorem available_frame:
  "(inbound_buffer_index h < inbound_buffer_size h \<longrightarrow> available N h e = (True, h, e))
   \<and> (\<not> inbound_buffer_index h < inbound_buffer_size h
       \<and> nc_malloc N e = (True, e1)
       \<and> nc_transaction N
            [(''req'', JString ''note.get''), (''file'', JString ''arduino_iot_cloud.qis''),
             (''delete'', JBool True)] e1 = (rsp, e2)
       \<and> JGetString rsp ''err'' = p @ ''{note-noexist}'' @ s
      \<longrightarrow> available N h e = (False, h, if en_hw_int h then snd (armInterrupt N e2) else e2))
   \<and> (fst (available N h e) = False \<longrightarrow> fst (snd (available N h e)) = h)"
proof -
  have empty: "available N h e = (False, h, if en_hw_int h then snd (armInterrupt N e2) else e2)"
    if "\<not> inbound_buffer_index h < inbound_buffer_size h"
      and "nc_malloc N e = (True, e1)"
      and "nc_transaction N
            [(''req'', JString ''note.get''), (''file'', JString ''arduino_iot_cloud.qis''),
             (''delete'', JBool True)] e1 = (rsp, e2)"
      and "JGetString rsp ''err'' = p @ ''{note-noexist}'' @ s"
  proof -
    from that(2-4) have "getNote N True h e
        = (None, if en_hw_int h then snd (armInterrupt N e2) else e2)"
      by (intro getNote_queue_empty) simp_all
    with that(1) show ?thesis by (rule available_no_note)
  qed
  from empty show ?thesis
    by (simp add: available_buffered available_False)
qed


theorem available_frame_witness:
  "available sim_Notecard
     ((NotecardConnectionHandler_i2c ''com.example:app'' True True 23 0 0 [])
        \<lparr>inbound_buffer := Some [10, 20], inbound_buffer_index := 1, inbound_buffer_size := 2\<rparr>)
     sim_idle
   = (True,
      (NotecardConnectionHandler_i2c ''com.example:app'' True True 23 0 0 [])
        \<lparr>inbound_buffer := Some [10, 20], inbound_buffer_index := 1, inbound_buffer_size := 2\<rparr>,
      sim_idle)
   \<and> nc_transaction sim_Notecard
         [(''req'', JString ''note.get''), (''file'', JString ''arduino_iot_cloud.qis''),
          (''delete'', JBool True)] sim_idle
       = (Some [(''err'', JString ''no notes available in queue {note-noexist}'')], sim_idle)
   \<and> available sim_Notecard
     ((NotecardConnectionHandler_i2c ''com.example:app'' True True 23 0 0 [])
        \<lparr>inbound_buffer := Some [10, 20], inbound_buffer_index := 2, inbound_buffer_size := 2\<rparr>)
     sim_idle
   = (False,
      (NotecardConnectionHandler_i2c ''com.example:app'' True True 23 0 0 [])
        \<lparr>inbound_buffer := Some [10, 20], inbound_buffer_index := 2, inbound_buffer_size := 2\<rparr>,
      sim_idle\<lparr>sim_armed := True\<rparr>)"
proof -
  let ?h1 = "(NotecardConnectionHandler_i2c ''com.example:app'' True True 23 0 0 [])
        \<lparr>inbound_buffer := Some [10, 20], inbound_buffer_index := 1, inbound_buffer_size := 2\<rparr>"
  let ?h2 = "(NotecardConnectionHandler_i2c ''com.example:app'' True True 23 0 0 [])
        \<lparr>inbound_buffer := Some [10, 20], inbound_buffer_index := 2, inbound_buffer_size := 2\<rparr>"
  let ?rsp = "Some [(''err'', JString ''no notes available in queue {note-noexist}'')]"
  have unread: "inbound_buffer_index ?h1 < inbound_buffer_size ?h1"
    by simp
  have exhausted: "\<not> inbound_buffer_index ?h2 < inbound_buffer_size ?h2"
    by simp
  have heap: "nc_malloc sim_Notecard sim_idle = (True, sim_idle)"
    by (simp add: sim_eval)
  have get: "nc_transaction sim_Notecard
         [(''req'', JString ''note.get''), (''file'', JString ''arduino_iot_cloud.qis''),
          (''delete'', JBool True)] sim_idle = (?rsp, sim_idle)"
    by (simp add: sim_eval)
  have err: "JGetString ?rsp ''err'' = ''no notes available in queue '' @ ''{note-noexist}'' @ []"
    by (simp add: JGetString_def)
  have hw: "en_hw_int ?h2"
    by (simp add: NotecardConnectionHandler_i2c_def)
  have arm: "snd (armInterrupt sim_Notecard sim_idle) = sim_idle\<lparr>sim_armed := True\<rparr>"
    by (simp add: armInterrupt_def sim_eval)
  from available_frame [of ?h1 sim_Notecard sim_idle] unread
  have one: "available sim_Notecard ?h1 sim_idle = (True, ?h1, sim_idle)"
    by blast
  from available_frame [of ?h2 sim_Notecard sim_idle sim_idle ?rsp sim_idle
      "''no notes available in queue ''" "[]"] exhausted heap get err
  have "available sim_Notecard ?h2 sim_idle
      = (False, ?h2, if en_hw_int ?h2 then snd (armInterrupt sim_Notecard sim_idle) else sim_idle)"
    by blast
  with hw arm have two: "available sim_Notecard ?h2 sim_idle = (False, ?h2, sim_idle\<lparr>sim_armed := True\<rparr>)"
    by simp
  from one get two show ?thesis
    by blast
qed

lemma write_buf_oom:
  "nc_malloc N e = (False, e1)
     \<Longrightarrow> write_buf N buf h e = (error_code HOST_ERROR_OUT_OF_MEMORY, h, e1)"
  by (simp add: write_buf_def newRequest_def)

lemma write_buf_sent:
  assumes "nc_malloc N e = (True, e1)"
    and "nc_transaction N
           ([(''req'', JString ''note.add''), (''file'', JString ''arduino_iot_cloud.qos''),
             (''payload'', JBinary buf)]
            @ (if keep_alive h then [(''sync'', JBool True)] else [])) e1 = (rsp, e2)"
  shows "write_buf N buf h e =
     (if NoteResponseError rsp then error_code NOTECARD_ERROR_GENERIC
      else error_code NOTECARD_ERROR_NONE, h, e2)"
  using assms
  by (cases "keep_alive h")
     (simp_all add: write_buf_def newRequest_def requestAndResponse_def JAddStringToObject_def
        JAddBinaryToObject_def JAddBoolToObject_def NOTEFILE_SSL_OUTBOUND_def NOTEFILE_BASE_NAME_def)

text \<open>
  C9. \<^verbatim>\<open>write\<close> returns the out-of-memory code when the request cannot be built.
  Otherwise it sends one \<^verbatim>\<open>note.add\<close> for the outbound file with the bytes as payload,
  and returns the generic error code when the response carries a protocol error and the
  success code when it does not. The request asks for an immediate sync exactly when
  keep-alive is active. The three codes differ.
\<close>

theorem write_buf_status:
  "(nc_malloc N e = (False, e1)
      \<longrightarrow> write_buf N buf h e = (error_code HOST_ERROR_OUT_OF_MEMORY, h, e1))
   \<and> (nc_malloc N e = (True, e1)
       \<and> nc_transaction N
            ([(''req'', JString ''note.add''), (''file'', JString ''arduino_iot_cloud.qos''),
              (''payload'', JBinary buf)]
             @ (if keep_alive h then [(''sync'', JBool True)] else [])) e1 = (rsp, e2)
      \<longrightarrow> write_buf N buf h e =
            (if NoteResponseError rsp then error_code NOTECARD_ERROR_GENERIC
             else error_code NOTECARD_ERROR_NONE, h, e2))
   \<and> JGetBool
        (Some ([(''req'', JString ''note.add''), (''file'', JString ''arduino_iot_cloud.qos''),
                (''payload'', JBinary buf)]
               @ (if keep_alive h then [(''sync'', JBool True)] else []))) ''sync'' = keep_alive h
   \<and> error_code HOST_ERROR_OUT_OF_MEMORY \<noteq> error_code NOTECARD_ERROR_GENERIC
   \<and> error_code HOST_ERROR_OUT_OF_MEMORY \<noteq> error_code NOTECARD_ERROR_NONE
   \<and> error_code NOTECARD_ERROR_GENERIC \<noteq> error_code NOTECARD_ERROR_NONE"
proof -
  have sync: "JGetBool
        (Some ([(''req'', JString ''note.add''), (''file'', JString ''arduino_iot_cloud.qos''),
                (''payload'', JBinary buf)]
               @ (if keep_alive h then [(''sync'', JBool True)] else []))) ''sync'' = keep_alive h"
    by (simp add: JGetBool_def)
  from sync show ?thesis
    by (simp add: write_buf_oom write_buf_sent)
qed

theorem write_buf_status_witness:
  "write_buf sim_Notecard [1, 2, 3]
     (NotecardConnectionHandler_i2c ''com.example:app'' False True 23 0 0 [])
     (sim_idle\<lparr>sim_heap := Some 0\<rparr>)
   = (- 3, NotecardConnectionHandler_i2c ''com.example:app'' False True 23 0 0 [],
      sim_idle\<lparr>sim_heap := Some 0\<rparr>)
   \<and> write_buf sim_Notecard [1, 2, 3]
     (NotecardConnectionHandler_i2c ''com.example:app'' False True 23 0 0 [])
     (sim_idle\<lparr>sim_failing := [''note.add'']\<rparr>)
   = (- 2, NotecardConnectionHandler_i2c ''com.example:app'' False True 23 0 0 [],
      sim_idle\<lparr>sim_failing := [''note.add'']\<rparr>)
   \<and> write_buf sim_Notecard [1, 2, 3]
     (NotecardConnectionHandler_i2c ''com.example:app'' False True 23 0 0 [])
     sim_idle
   = (0, NotecardConnectionHandler_i2c ''com.example:app'' False True 23 0 0 [],
      sim_idle\<lparr>sim_outbound := [[1, 2, 3]]\<rparr>)"
proof -
  let ?h = "NotecardConnectionHandler_i2c ''com.example:app'' False True 23 0 0 []"
  let ?req = "[(''req'', JString ''note.add''), (''file'', JString ''arduino_iot_cloud.qos''),
              (''payload'', JBinary [1, 2, 3])]
             @ (if keep_alive ?h then [(''sync'', JBool True)] else [])"
  let ?oom = "sim_idle\<lparr>sim_heap := Some 0\<rparr>"
  let ?bad = "sim_idle\<lparr>sim_failing := [''note.add'']\<rparr>"
  let ?refused = "Some [(''err'', JString ''refused {io}'')]"
  have oom: "nc_malloc sim_Notecard ?oom = (False, ?oom)"
    by (simp add: sim_eval)
  have bad1: "nc_malloc sim_Notecard ?bad = (True, ?bad)"
    by (simp add: sim_eval)
  have bad2: "nc_transaction sim_Notecard ?req ?bad = (?refused, ?bad)"
    by (simp add: sim_eval NotecardConnectionHandler_i2c_def)
  have bad3: "NoteResponseError ?refused"
    by (simp add: NoteResponseError_def)
  have good1: "nc_malloc sim_Notecard sim_idle = (True, sim_idle)"
    by (simp add: sim_eval)
  have good2: "nc_transaction sim_Notecard ?req sim_idle
                 = (Some [], sim_idle\<lparr>sim_outbound := [[1, 2, 3]]\<rparr>)"
    by (simp add: sim_eval NotecardConnectionHandler_i2c_def)
  have good3: "\<not> NoteResponseError (Some [])"
    by (simp add: NoteResponseError_def)
  from write_buf_status [of sim_Notecard ?oom ?oom "[1, 2, 3]" ?h] oom
  have "write_buf sim_Notecard [1, 2, 3] ?h ?oom = (error_code HOST_ERROR_OUT_OF_MEMORY, ?h, ?oom)"
    by blast
  then have a: "write_buf sim_Notecard [1, 2, 3] ?h ?oom = (- 3, ?h, ?oom)"
    by simp
  from write_buf_status [of sim_Notecard ?bad ?bad "[1, 2, 3]" ?h ?refused ?bad] bad1 bad2
  have "write_buf sim_Notecard [1, 2, 3] ?h ?bad =
            (if NoteResponseError ?refused then error_code NOTECARD_ERROR_GENERIC
             else error_code NOTECARD_ERROR_NONE, ?h, ?bad)"
    by blast
  with bad3 have b: "write_buf sim_Notecard [1, 2, 3] ?h ?bad = (- 2, ?h, ?bad)"
    by simp
  from write_buf_status [of sim_Notecard sim_idle sim_idle "[1, 2, 3]" ?h "Some []"
      "sim_idle\<lparr>sim_outbound := [[1, 2, 3]]\<rparr>"] good1 good2
  have "write_buf sim_Notecard [1, 2, 3] ?h sim_idle =
            (if NoteResponseError (Some []) then error_code NOTECARD_ERROR_GENERIC
             else error_code NOTECARD_ERROR_NONE, ?h, sim_idle\<lparr>sim_outbound := [[1, 2, 3]]\<rparr>)"
    by blast
  with good3 have c: "write_buf sim_Notecard [1, 2, 3] ?h sim_idle
      = (0, ?h, sim_idle\<lparr>sim_outbound := [[1, 2, 3]]\<rparr>)"
    by simp
  from a b c show ?thesis
    by blast
qed

subsection \<open>Rearming and initialisation\<close>

lemma armInterrupt_oom1:
  "nc_malloc N e = (False, e1) \<Longrightarrow> armInterrupt N e = (False, e1)"
  by (simp add: armInterrupt_def newRequest_def)

lemma armInterrupt_oom2:
  "nc_malloc N e = (True, e1) \<Longrightarrow> nc_malloc N e1 = (False, e2) \<Longrightarrow> armInterrupt N e = (False, e2)"
  by (simp add: armInterrupt_def newRequest_def JAddArrayToObject_def)

lemma armInterrupt_sent:
  assumes "nc_malloc N e = (True, e1)" and "nc_malloc N e1 = (True, e2)"
    and "nc_transaction N
           [(''req'', JString ''card.attn''), (''mode'', JString ''rearm,files''),
            (''files'', JArray [''arduino_iot_cloud.qis''])] e2 = (rsp, e3)"
  shows "armInterrupt N e = (True, e3)"
  using assms
  by (simp add: armInterrupt_def newRequest_def JAddArrayToObject_def requestAndResponse_def
      JAddStringToObject_def NOTEFILE_SSL_INBOUND_def NOTEFILE_BASE_NAME_def)

text \<open>
  C10. When both allocations succeed the rearm request is sent, and \<^verbatim>\<open>armInterrupt\<close>
  returns true whatever the response is: one that carries a protocol error, one that
  carries none, or null. It returns true exactly when the request and its array of
  files could both be allocated.
\<close>

theorem armInterrupt_ignores_error:
  "(nc_malloc N e = (True, e1) \<and> nc_malloc N e1 = (True, e2)
      \<and> nc_transaction N
           [(''req'', JString ''card.attn''), (''mode'', JString ''rearm,files''),
            (''files'', JArray [''arduino_iot_cloud.qis''])] e2 = (rsp, e3)
      \<longrightarrow> armInterrupt N e = (True, e3))
   \<and> (fst (armInterrupt N e)
        \<longleftrightarrow> fst (nc_malloc N e) \<and> fst (nc_malloc N (snd (nc_malloc N e))))"
proof -
  obtain ok1 e1' where a: "nc_malloc N e = (ok1, e1')" by (cases "nc_malloc N e")
  obtain ok2 e2' where b: "nc_malloc N e1' = (ok2, e2')" by (cases "nc_malloc N e1'")
  obtain rsp' e3' where c: "nc_transaction N
           [(''req'', JString ''card.attn''), (''mode'', JString ''rearm,files''),
            (''files'', JArray [''arduino_iot_cloud.qis''])] e2' = (rsp', e3')"
    by (cases "nc_transaction N
           [(''req'', JString ''card.attn''), (''mode'', JString ''rearm,files''),
            (''files'', JArray [''arduino_iot_cloud.qis''])] e2'")
  have iff: "fst (armInterrupt N e)
        \<longleftrightarrow> fst (nc_malloc N e) \<and> fst (nc_malloc N (snd (nc_malloc N e)))"
  proof (cases ok1)
    case False
    with a show ?thesis by (simp add: armInterrupt_oom1)
  next
    case True
    show ?thesis
    proof (cases ok2)
      case False
      with a b True show ?thesis by (simp add: armInterrupt_oom2)
    next
      case ok: True
      with a b c True show ?thesis by (simp add: armInterrupt_sent)
    qed
  qed
  then show ?thesis
    by (simp add: armInterrupt_sent)
qed

theorem armInterrupt_ignores_error_witness:
  "nc_transaction sim_Notecard
     [(''req'', JString ''card.attn''), (''mode'', JString ''rearm,files''),
      (''files'', JArray [''arduino_iot_cloud.qis''])] (sim_idle\<lparr>sim_failing := [''card.attn'']\<rparr>)
     = (Some [(''err'', JString ''refused {io}'')], sim_idle\<lparr>sim_failing := [''card.attn'']\<rparr>)
   \<and> NoteResponseError (Some [(''err'', JString ''refused {io}'')])
   \<and> armInterrupt sim_Notecard (sim_idle\<lparr>sim_failing := [''card.attn'']\<rparr>)
       = (True, sim_idle\<lparr>sim_failing := [''card.attn'']\<rparr>)
   \<and> armInterrupt sim_Notecard sim_idle = (True, sim_idle\<lparr>sim_armed := True\<rparr>)
   \<and> \<not> fst (armInterrupt sim_Notecard (sim_idle\<lparr>sim_heap := Some 1\<rparr>))"
proof -
  let ?req = "[(''req'', JString ''card.attn''), (''mode'', JString ''rearm,files''),
      (''files'', JArray [''arduino_iot_cloud.qis''])]"
  let ?bad = "sim_idle\<lparr>sim_failing := [''card.attn'']\<rparr>"
  let ?refused = "Some [(''err'', JString ''refused {io}'')]"
  let ?low = "sim_idle\<lparr>sim_heap := Some 1\<rparr>"
  have bad1: "nc_malloc sim_Notecard ?bad = (True, ?bad)"
    by (simp add: sim_eval)
  have bad2: "nc_transaction sim_Notecard ?req ?bad = (?refused, ?bad)"
    by (simp add: sim_eval)
  have bad3: "NoteResponseError ?refused"
    by (simp add: NoteResponseError_def)
  have good1: "nc_malloc sim_Notecard sim_idle = (True, sim_idle)"
    by (simp add: sim_eval)
  have good2: "nc_transaction sim_Notecard ?req sim_idle = (Some [], sim_idle\<lparr>sim_armed := True\<rparr>)"
    by (simp add: sim_eval)
  have low: "\<not> (fst (nc_malloc sim_Notecard ?low)
      \<and> fst (nc_malloc sim_Notecard (snd (nc_malloc sim_Notecard ?low))))"
    by (simp add: sim_eval)
  from armInterrupt_ignores_error [of sim_Notecard ?bad ?bad ?bad ?refused ?bad] bad1 bad2
  have a: "armInterrupt sim_Notecard ?bad = (True, ?bad)"
    by blast
  from armInterrupt_ignores_error [of sim_Notecard sim_idle sim_idle sim_idle "Some []"
      "sim_idle\<lparr>sim_armed := True\<rparr>"] good1 good2
  have b: "armInterrupt sim_Notecard sim_idle = (True, sim_idle\<lparr>sim_armed := True\<rparr>)"
    by blast
  from armInterrupt_ignores_error [of sim_Notecard ?low] low
  have c: "\<not> fst (armInterrupt sim_Notecard ?low)"
    by blast
  from a b c bad2 bad3 show ?thesis
    by blast
qed

lemma update_handleInit_no_note:
  "init_begin N h e = Inr e0 \<Longrightarrow> getNote N False h e0 = (None, e1)
     \<Longrightarrow> update_handleInit N millis h e = Inl Uninitialized_read"
  by (simp add: update_handleInit_def init_probe_def)


text \<open>
  C1. The claim asks for a well-defined next state also when the probe of the inbound
  queue finds no note. The code has none there: once the transport is open and
  \<^verbatim>\<open>getNote(false)\<close> returns null, the handler of INIT reads its local variable
  \<^verbatim>\<open>result\<close>, which nothing has assigned. The input of the witness is a handler on a
  Notecard whose inbound queue is empty.
\<close>

theorem update_handleInit_unassigned:
  "init_begin N h e = Inr e0 \<and> getNote N False h e0 = (None, e1)
     \<longrightarrow> update_handleInit N millis h e = Inl Uninitialized_read"
  by (simp add: update_handleInit_no_note)

theorem update_handleInit_unassigned_witness:
  "init_begin sim_Notecard (NotecardConnectionHandler_i2c ''com.example:app'' False True 23 0 0 [])
      sim_idle = Inr (sim_idle\<lparr>sim_port := Some (I2C 23 0 0)\<rparr>)
   \<and> getNote sim_Notecard False
        (NotecardConnectionHandler_i2c ''com.example:app'' False True 23 0 0 [])
        (sim_idle\<lparr>sim_port := Some (I2C 23 0 0)\<rparr>)
      = (None, sim_idle\<lparr>sim_port := Some (I2C 23 0 0)\<rparr>)
   \<and> update_handleInit sim_Notecard 1000
        (NotecardConnectionHandler_i2c ''com.example:app'' False True 23 0 0 []) sim_idle
      = Inl Uninitialized_read"
proof -
  let ?h = "NotecardConnectionHandler_i2c ''com.example:app'' False True 23 0 0 []"
  let ?e0 = "sim_idle\<lparr>sim_port := Some (I2C 23 0 0)\<rparr>"
  have a: "init_begin sim_Notecard ?h sim_idle = Inr ?e0"
    by (simp add: handler_eval sim_eval)
  have b: "getNote sim_Notecard False ?h ?e0 = (None, ?e0)"
    by (simp add: handler_eval sim_eval)
  from update_handleInit_unassigned [of sim_Notecard ?h sim_idle ?e0 ?e0 1000] a b
  have "update_handleInit sim_Notecard 1000 ?h sim_idle = Inl Uninitialized_read"
    by blast
  with a b show ?thesis
    by blast
qed

subsection \<open>The round trip\<close>

lemma sim_write_buf:
  assumes "sim_heap s = None" and "sim_failing s = []"
  shows "write_buf sim_Notecard bs h s
           = (error_code NOTECARD_ERROR_NONE, h, s\<lparr>sim_outbound := sim_outbound s @ [bs]\<rparr>)"
  using assms by (cases "keep_alive h") (simp_all add: write_buf_def sim_eval)

lemma sim_getNote_pop:
  assumes "sim_heap s = None" and "sim_failing s = []" and "sim_inbound s = p # ps"
  shows "getNote sim_Notecard True h s = (Some [(''payload'', JBinary p)], s\<lparr>sim_inbound := ps\<rparr>)"
  using assms by (simp add: getNote_def sim_eval)

lemma sim_getNote_empty:
  assumes "sim_heap s = None" and "sim_failing s = []" and "sim_inbound s = []"
  shows "getNote sim_Notecard pop h s = (None, if en_hw_int h then s\<lparr>sim_armed := True\<rparr> else s)"
  using assms by (cases pop) (simp_all add: getNote_def armInterrupt_def sim_eval)

lemma word32_of_nat_less:
  "i < n \<Longrightarrow> n < 2 ^ 32 \<Longrightarrow> (of_nat i :: 32 word) < of_nat n"
  by (simp add: word_less_nat_alt unat_of_nat)

lemma drain_buffered:
  assumes "sim_heap s = None" and "sim_failing s = []" and "sim_inbound s = []"
    and "inbound_buffer h = Some b" and "inbound_buffer_size h = of_nat (length b)"
    and "length b < 2 ^ 32"
    and "inbound_buffer_index h = of_nat i" and "i \<le> length b" and "length b - i < fuel"
  shows "\<exists>h' s'. drain fuel sim_Notecard h s = Some (Inr (map uint (drop i b), h', s'))"
  using assms(4-9)
proof (induction "length b - i" arbitrary: i h fuel)
  case 0
  then have i: "i = length b" by simp
  from "0.prems" obtain f where fuel: "fuel = Suc f" by (cases fuel) auto
  from "0.prems" i have fin: "\<not> inbound_buffer_index h < inbound_buffer_size h" by simp
  have "getNote sim_Notecard True h s
          = (None, if en_hw_int h then s\<lparr>sim_armed := True\<rparr> else s)"
    using assms(1-3) by (rule sim_getNote_empty)
  with fin have "available sim_Notecard h s
          = (False, h, if en_hw_int h then s\<lparr>sim_armed := True\<rparr> else s)"
    by (simp add: available_def)
  with fuel i show ?case by simp
next
  case (Suc n)
  then have i: "i < length b" by simp
  from Suc.prems obtain f where fuel: "fuel = Suc f" by (cases fuel) auto
  from i Suc.prems have lt: "inbound_buffer_index h < inbound_buffer_size h"
    by (simp add: word32_of_nat_less)
  then have av: "available sim_Notecard h s = (True, h, s)"
    by (simp add: available_def)
  from i Suc.prems have at: "unat (inbound_buffer_index h) = i"
    by (simp add: unat_of_nat)
  let ?h = "h\<lparr>inbound_buffer_index := inbound_buffer_index h + 1\<rparr>"
  from lt at i Suc.prems have rd: "read h s = Inr (uint (b ! i), ?h, s)"
    by (simp add: read_def)
  have "\<exists>h' s'. drain f sim_Notecard ?h s = Some (Inr (map uint (drop (Suc i) b), h', s'))"
  proof (rule Suc.hyps(1))
    from Suc.hyps(2) show "n = length b - Suc i" by simp
    from Suc.prems show "inbound_buffer ?h = Some b" by simp
    from Suc.prems show "inbound_buffer_size ?h = of_nat (length b)" by simp
    from Suc.prems show "length b < 2 ^ 32" by simp
    from Suc.prems show "inbound_buffer_index ?h = of_nat (Suc i)" by simp
    from i show "Suc i \<le> length b" by simp
    from Suc.prems fuel i show "length b - Suc i < f" by simp
  qed
  then obtain h' s' where rest: "drain f sim_Notecard ?h s
      = Some (Inr (map uint (drop (Suc i) b), h', s'))" by blast
  from i have "map uint (drop i b) = uint (b ! i) # map uint (drop (Suc i) b)"
    by (simp add: Cons_nth_drop_Suc [symmetric])
  with fuel av rd rest show ?case by simp
qed

text \<open>
  C4, amended. On the substitute Notecard with ample memory and empty queues, and a
  handler whose buffer has nothing unread: for every sequence of bytes that is not
  empty and whose length fits the 32-bit length field, \<^verbatim>\<open>write\<close> succeeds, the relay
  hands the payload back, and the consumer's loop of \<^verbatim>\<open>available()\<close> and
  \<^verbatim>\<open>read()\<close> ends (any fuel above the number of bytes is enough) having read exactly
  the bytes written, one per call of \<^verbatim>\<open>read()\<close>, in order.
\<close>

theorem stream_round_trip:
  assumes "bs \<noteq> []" and "length bs < 2 ^ 32"
    and "\<not> inbound_buffer_index h < inbound_buffer_size h"
    and "sim_heap s = None" and "sim_failing s = []"
    and "sim_inbound s = []" and "sim_outbound s = []"
    and "length bs < fuel"
  shows "\<exists>h1 s1 h2 s2.
           write_buf sim_Notecard bs h s = (error_code NOTECARD_ERROR_NONE, h1, s1)
           \<and> drain fuel sim_Notecard h1 (sim_relay s1) = Some (Inr (map uint bs, h2, s2))"
proof -
  let ?s1 = "s\<lparr>sim_outbound := sim_outbound s @ [bs]\<rparr>"
  let ?s2 = "(sim_relay ?s1)\<lparr>sim_inbound := []\<rparr>"
  let ?h1 = "h\<lparr>inbound_buffer := Some bs, inbound_buffer_size := of_nat (length bs),
               inbound_buffer_index := 0\<rparr>"
  let ?h2 = "?h1\<lparr>inbound_buffer_index := inbound_buffer_index ?h1 + 1\<rparr>"
  from assms(8) obtain f where fuel: "fuel = Suc f" by (cases fuel) auto
  have w: "write_buf sim_Notecard bs h s = (error_code NOTECARD_ERROR_NONE, h, ?s1)"
    using assms(4,5) by (rule sim_write_buf)
  have q: "sim_heap (sim_relay ?s1) = None" "sim_failing (sim_relay ?s1) = []"
    "sim_inbound (sim_relay ?s1) = bs # []"
    using assms(4-7) by (simp_all add: sim_relay_def)
  have "getNote sim_Notecard True h (sim_relay ?s1) = (Some [(''payload'', JBinary bs)], ?s2)"
    using q by (rule sim_getNote_pop)
  with assms(3) have av: "available sim_Notecard h (sim_relay ?s1) = (True, ?h1, ?s2)"
    by (simp add: available_def JGetBinaryFromObject_def)
  from assms(1,2) have "(of_nat 0 :: 32 word) < of_nat (length bs)"
    by (intro word32_of_nat_less) simp_all
  with assms(1) have rd: "read ?h1 ?s2 = Inr (uint (bs ! 0), ?h2, ?s2)"
    by (simp add: read_def)
  have "\<exists>h' s'. drain f sim_Notecard ?h2 ?s2 = Some (Inr (map uint (drop 1 bs), h', s'))"
  proof (rule drain_buffered)
    from assms(4) show "sim_heap ?s2 = None" by (simp add: sim_relay_def)
    from assms(5) show "sim_failing ?s2 = []" by (simp add: sim_relay_def)
    show "sim_inbound ?s2 = []" by simp
    show "inbound_buffer ?h2 = Some bs" by simp
    show "inbound_buffer_size ?h2 = of_nat (length bs)" by simp
    from assms(2) show "length bs < 2 ^ 32" .
    show "inbound_buffer_index ?h2 = of_nat 1" by simp
    from assms(1) show "1 \<le> length bs" by (cases bs) simp_all
    from assms(1,8) fuel show "length bs - 1 < f" by (cases bs) simp_all
  qed
  then obtain h' s' where rest: "drain f sim_Notecard ?h2 ?s2
      = Some (Inr (map uint (drop 1 bs), h', s'))" by blast
  from assms(1) have "map uint bs = uint (bs ! 0) # map uint (drop 1 bs)"
    by (cases bs) simp_all
  with fuel av rd rest have "drain fuel sim_Notecard h (sim_relay ?s1)
      = Some (Inr (map uint bs, h', s'))"
    by simp
  with w show ?thesis by blast
qed


theorem stream_round_trip_witness:
  "\<not> inbound_buffer_index (NotecardConnectionHandler_i2c ''com.example:app'' False True 23 0 0 [])
       < inbound_buffer_size (NotecardConnectionHandler_i2c ''com.example:app'' False True 23 0 0 [])
   \<and> write_buf sim_Notecard [1, 2, 3]
        (NotecardConnectionHandler_i2c ''com.example:app'' False True 23 0 0 []) sim_idle
      = (0, NotecardConnectionHandler_i2c ''com.example:app'' False True 23 0 0 [],
         sim_idle\<lparr>sim_outbound := [[1, 2, 3]]\<rparr>)
   \<and> map_option (map_sum id fst)
        (drain 4 sim_Notecard
           (NotecardConnectionHandler_i2c ''com.example:app'' False True 23 0 0 [])
           (sim_relay (sim_idle\<lparr>sim_outbound := [[1, 2, 3]]\<rparr>)))
      = Some (Inr [1, 2, 3])"
proof -
  let ?h = "NotecardConnectionHandler_i2c ''com.example:app'' False True 23 0 0 []"
  have fresh: "\<not> inbound_buffer_index ?h < inbound_buffer_size ?h"
    by (simp add: NotecardConnectionHandler_i2c_def)
  have w: "write_buf sim_Notecard [1, 2, 3] ?h sim_idle
             = (0, ?h, sim_idle\<lparr>sim_outbound := [[1, 2, 3]]\<rparr>)"
    by (simp add: write_buf_def NotecardConnectionHandler_i2c_def sim_eval)
  have "\<exists>h1 s1 h2 s2.
           write_buf sim_Notecard [1, 2, 3] ?h sim_idle = (error_code NOTECARD_ERROR_NONE, h1, s1)
           \<and> drain 4 sim_Notecard h1 (sim_relay s1)
               = Some (Inr (map uint [1, 2, 3 :: uint8_t], h2, s2))"
    using fresh by (intro stream_round_trip) (simp_all add: sim_idle_def)
  with w obtain h2 s2 where
    "drain 4 sim_Notecard ?h (sim_relay (sim_idle\<lparr>sim_outbound := [[1, 2, 3]]\<rparr>))
       = Some (Inr (map uint [1, 2, 3 :: uint8_t], h2, s2))"
    by auto
  then have "map_option (map_sum id fst)
        (drain 4 sim_Notecard ?h (sim_relay (sim_idle\<lparr>sim_outbound := [[1, 2, 3]]\<rparr>)))
      = Some (Inr [1, 2, 3])"
    by simp
  with fresh w show ?thesis
    by blast
qed

text \<open>
  C4 as stated, for every sequence, fails on the empty one. The write succeeds and the
  relay hands the empty payload back; the note is dequeued, \<^verbatim>\<open>available()\<close> answers
  true as it does for every dequeued note, and the call of \<^verbatim>\<open>read()\<close> that follows
  returns the "no data" code, which is no byte of the sequence. The loop then ends: what
  it read is one value, where nothing was written.
\<close>

theorem stream_round_trip_empty:
  "write_buf sim_Notecard []
     (NotecardConnectionHandler_i2c ''com.example:app'' False True 23 0 0 []) sim_idle
   = (0, NotecardConnectionHandler_i2c ''com.example:app'' False True 23 0 0 [],
      sim_idle\<lparr>sim_outbound := [[]]\<rparr>)
   \<and> available sim_Notecard
       (NotecardConnectionHandler_i2c ''com.example:app'' False True 23 0 0 [])
       (sim_relay (sim_idle\<lparr>sim_outbound := [[]]\<rparr>))
     = (True,
        (NotecardConnectionHandler_i2c ''com.example:app'' False True 23 0 0 [])
          \<lparr>inbound_buffer := Some []\<rparr>,
        sim_idle)
   \<and> read ((NotecardConnectionHandler_i2c ''com.example:app'' False True 23 0 0 [])
              \<lparr>inbound_buffer := Some []\<rparr>) sim_idle
     = Inr (- 1,
            (NotecardConnectionHandler_i2c ''com.example:app'' False True 23 0 0 [])
              \<lparr>inbound_buffer := Some []\<rparr>,
            sim_idle)
   \<and> drain 2 sim_Notecard
       (NotecardConnectionHandler_i2c ''com.example:app'' False True 23 0 0 [])
       (sim_relay (sim_idle\<lparr>sim_outbound := [[]]\<rparr>))
     = Some (Inr ([- 1],
                  (NotecardConnectionHandler_i2c ''com.example:app'' False True 23 0 0 [])
                    \<lparr>inbound_buffer := Some []\<rparr>,
                  sim_idle))
   \<and> [- 1] \<noteq> map uint ([] :: uint8_t list)"
proof -
  let ?h = "NotecardConnectionHandler_i2c ''com.example:app'' False True 23 0 0 []"
  let ?h1 = "?h\<lparr>inbound_buffer := Some []\<rparr>"
  let ?s1 = "sim_relay (sim_idle\<lparr>sim_outbound := [[]]\<rparr>)"
  have w: "write_buf sim_Notecard [] ?h sim_idle = (0, ?h, sim_idle\<lparr>sim_outbound := [[]]\<rparr>)"
    by (simp add: write_buf_def NotecardConnectionHandler_i2c_def sim_eval)
  have a1: "available sim_Notecard ?h ?s1 = (True, ?h1, sim_idle)"
    by (simp add: available_def getNote_def NotecardConnectionHandler_i2c_def sim_relay_def
        sim_eval)
  have r: "read ?h1 sim_idle = Inr (- 1, ?h1, sim_idle)"
    by (simp add: read_def NotecardConnectionHandler_i2c_def)
  have a2: "available sim_Notecard ?h1 sim_idle = (False, ?h1, sim_idle)"
    by (simp add: available_def getNote_def NotecardConnectionHandler_i2c_def sim_eval)
  have "drain (Suc (Suc 0)) sim_Notecard ?h ?s1 = Some (Inr ([- 1], ?h1, sim_idle))"
    by (simp add: a1 r a2)
  then have d: "drain 2 sim_Notecard ?h ?s1 = Some (Inr ([- 1], ?h1, sim_idle))"
    by (simp add: numeral_2_eq_2)
  from w a1 r d show ?thesis
    by simp
qed

end
